theory Spec2Isabelle
  imports Main
begin

section \<open>Python values and exceptions\<close>

text \<open>
  The exception classes that the helpers of \<^verbatim>\<open>Lib/test/test_importlib/util.py\<close> raise
  or catch, together with the builtin classes above them, and \<open>UserClass n b\<close> for a
  class that test code defines itself with direct base \<open>b\<close>.
\<close>

datatype exc_class =
    BaseException
  | SystemExit
  | KeyboardInterrupt
  | GeneratorExit
  | Exception
  | LookupError
  | KeyError
  | ValueError
  | ImportError
  | AttributeError
  | NameError
  | UnboundLocalError
  | OSError
  | UserClass nat exc_class

text \<open>The method resolution order of a class: the class itself, then its bases.\<close>

fun mro :: "exc_class \<Rightarrow> exc_class list" where
  "mro BaseException = [BaseException]"
| "mro SystemExit = [SystemExit, BaseException]"
| "mro KeyboardInterrupt = [KeyboardInterrupt, BaseException]"
| "mro GeneratorExit = [GeneratorExit, BaseException]"
| "mro Exception = [Exception, BaseException]"
| "mro LookupError = [LookupError, Exception, BaseException]"
| "mro KeyError = [KeyError, LookupError, Exception, BaseException]"
| "mro ValueError = [ValueError, Exception, BaseException]"
| "mro ImportError = [ImportError, Exception, BaseException]"
| "mro AttributeError = [AttributeError, Exception, BaseException]"
| "mro NameError = [NameError, Exception, BaseException]"
| "mro UnboundLocalError = [UnboundLocalError, NameError, Exception, BaseException]"
| "mro OSError = [OSError, Exception, BaseException]"
| "mro (UserClass n b) = UserClass n b # mro b"

definition issubclass :: "exc_class \<Rightarrow> exc_class \<Rightarrow> bool" where
  "issubclass c d = (d \<in> set (mro c))"

text \<open>
  The arguments of an exception instance: none (\<^verbatim>\<open>raise ImportError\<close>), one string,
  a format string whose \<^verbatim>\<open>{0}\<close> is filled with the \<^verbatim>\<open>dict_keys\<close> view of the given keys,
  or the \<^verbatim>\<open>errno\<close> and \<^verbatim>\<open>strerror\<close> of an \<^verbatim>\<open>OSError\<close>.
\<close>

datatype exc_args = NoArgs | Msg string | MsgKeys string "string list" | OSArgs nat string

datatype exc = Exc exc_class exc_args

fun exc_cls :: "exc \<Rightarrow> exc_class" where
  "exc_cls (Exc c a) = c"

definition isinstance :: "exc \<Rightarrow> exc_class \<Rightarrow> bool" where
  "isinstance e c = issubclass (exc_cls e) c"

text \<open>The attribute \<^verbatim>\<open>errno\<close> of an exception: \<open>None\<close> when it was made without one.\<close>

fun exc_errno :: "exc \<Rightarrow> nat option" where
  "exc_errno (Exc c (OSArgs n m)) = Some n"
| "exc_errno (Exc c a) = None"

text \<open>A class is host-defined when it is one of the interpreter's own, not a \<open>UserClass\<close>.\<close>

fun host_defined :: "exc_class \<Rightarrow> bool" where
  "host_defined (UserClass n b) = False"
| "host_defined c = True"

datatype pyval =
    PyNone
  | PyBool bool
  | PyStr string
  | PyList "pyval list"
  | PyDict "(pyval \<times> pyval) list"
  | PyObj nat
  | PyExc exc

text \<open>\<^verbatim>\<open>isinstance(v, Exception)\<close> for an arbitrary value.\<close>

fun is_Exception_instance :: "pyval \<Rightarrow> bool" where
  "is_Exception_instance (PyExc e) = isinstance e Exception"
| "is_Exception_instance v = False"

section \<open>Strings\<close>

text \<open>\<^verbatim>\<open>s.endswith(suf)\<close>.\<close>

definition endswith :: "string \<Rightarrow> string \<Rightarrow> bool" where
  "endswith s suf = (length suf \<le> length s \<and> drop (length s - length suf) s = suf)"

text \<open>\<^verbatim>\<open>s.split(c)\<close> for a one-character separator: always at least one part.\<close>

fun split :: "char \<Rightarrow> string \<Rightarrow> string list" where
  "split c [] = [[]]"
| "split c (x # xs) =
     (if x = c then [] # split c xs
      else (case split c xs of
              [] \<Rightarrow> [[x]]
            | p # ps \<Rightarrow> (x # p) # ps))"

text \<open>\<^verbatim>\<open>s.rsplit(c, 1)[0]\<close> for a string that contains \<open>c\<close>: what precedes the last \<open>c\<close>.\<close>

definition rsplit1_head :: "char \<Rightarrow> string \<Rightarrow> string" where
  "rsplit1_head c s = rev (tl (dropWhile (\<lambda>x. x \<noteq> c) (rev s)))"

section \<open>Modules and the state of \<^verbatim>\<open>sys\<close>\<close>

text \<open>
  A module spec, as far as the helpers read or build one: \<^verbatim>\<open>name\<close>, \<^verbatim>\<open>origin\<close> and
  the \<^verbatim>\<open>is_package\<close> flag given to \<^verbatim>\<open>machinery.ModuleSpec\<close>.
\<close>

record module_spec =
  spec_name :: string
  spec_origin :: "string option"
  spec_is_package :: bool

text \<open>
  A module object with the attributes \<^verbatim>\<open>_ImporterMock.__init__\<close> sets: \<^verbatim>\<open>__name__\<close>,
  \<^verbatim>\<open>__loader__\<close> (the identity of the importer), \<^verbatim>\<open>__file__\<close>, \<^verbatim>\<open>__package__\<close>,
  \<^verbatim>\<open>attr\<close>, \<^verbatim>\<open>__path__\<close> (absent for a plain module) and \<^verbatim>\<open>__spec__\<close>
  (\<^verbatim>\<open>None\<close> on a module fresh from \<^verbatim>\<open>types.ModuleType\<close>). The model never mutates a
  module, so equality of these records stands for identity of the objects.
\<close>

record pymodule =
  mod_name :: string
  mod_loader :: nat
  mod_file :: string
  mod_package :: "string option"
  mod_attr :: string
  mod_path :: "string list option"
  mod_spec :: "module_spec option"

text \<open>
  The attributes of \<^verbatim>\<open>sys\<close> that the helpers read or assign. An attribute holds the
  value bound to it; \<^verbatim>\<open>sys.modules\<close> is the dictionary from names to module objects.
\<close>

record sys_state =
  sys_meta_path :: pyval
  sys_path :: pyval
  sys_path_hooks :: pyval
  sys_path_importer_cache :: pyval
  sys_pycache_prefix :: pyval
  sys_dont_write_bytecode :: bool
  sys_modules :: "string \<rightharpoonup> pymodule"

text \<open>
  The body of a \<^verbatim>\<open>with\<close> statement, and any callable run for its effect: it may change
  the state of \<^verbatim>\<open>sys\<close> in any way and either completes (\<open>None\<close>) or raises.
\<close>

type_synonym body = "sys_state \<Rightarrow> sys_state \<times> exc option"

section \<open>\<^verbatim>\<open>uncache\<close>\<close>

text \<open>\<^verbatim>\<open>try: del sys.modules[name]  except KeyError: pass\<close>\<close>

definition del_module :: "string \<Rightarrow> sys_state \<Rightarrow> sys_state" where
  "del_module name s =
     (case sys_modules s name of
        None \<Rightarrow> s
      | Some m \<Rightarrow> s\<lparr>sys_modules := (sys_modules s)(name := None)\<rparr>)"

text \<open>
  The generator up to its \<^verbatim>\<open>yield\<close>: the first loop, which stops with \<^verbatim>\<open>ValueError\<close>
  at a name that must not be uncached. That \<^verbatim>\<open>raise\<close> is outside the \<^verbatim>\<open>try\<close>.
\<close>

fun uncache_enter :: "string list \<Rightarrow> sys_state \<Rightarrow> sys_state \<times> exc option" where
  "uncache_enter [] s = (s, None)"
| "uncache_enter (name # names) s =
     (if name \<in> set [''sys'', ''marshal'', ''imp'']
      then (s, Some (Exc ValueError (Msg (''cannot uncache '' @ name))))
      else uncache_enter names (del_module name s))"

text \<open>The \<^verbatim>\<open>finally\<close> block: the second loop.\<close>

fun uncache_exit :: "string list \<Rightarrow> sys_state \<Rightarrow> sys_state" where
  "uncache_exit [] s = s"
| "uncache_exit (name # names) s = uncache_exit names (del_module name s)"

text \<open>\<^verbatim>\<open>with uncache(*names): body\<close>\<close>

definition uncache :: "string list \<Rightarrow> body \<Rightarrow> sys_state \<Rightarrow> sys_state \<times> exc option" where
  "uncache names b s =
     (case uncache_enter names s of
        (s1, Some e) \<Rightarrow> (s1, Some e)
      | (s1, None) \<Rightarrow>
          (case b s1 of (s2, r) \<Rightarrow> (uncache_exit names s2, r)))"

section \<open>\<^verbatim>\<open>import_state\<close>\<close>

datatype sys_attr = Meta_path | Path | Path_hooks | Path_importer_cache

fun attr_name :: "sys_attr \<Rightarrow> string" where
  "attr_name Meta_path = ''meta_path''"
| "attr_name Path = ''path''"
| "attr_name Path_hooks = ''path_hooks''"
| "attr_name Path_importer_cache = ''path_importer_cache''"

fun getattr_sys :: "sys_state \<Rightarrow> sys_attr \<Rightarrow> pyval" where
  "getattr_sys s Meta_path = sys_meta_path s"
| "getattr_sys s Path = sys_path s"
| "getattr_sys s Path_hooks = sys_path_hooks s"
| "getattr_sys s Path_importer_cache = sys_path_importer_cache s"

fun setattr_sys :: "sys_attr \<Rightarrow> pyval \<Rightarrow> sys_state \<Rightarrow> sys_state" where
  "setattr_sys Meta_path v s = s\<lparr>sys_meta_path := v\<rparr>"
| "setattr_sys Path v s = s\<lparr>sys_path := v\<rparr>"
| "setattr_sys Path_hooks v s = s\<lparr>sys_path_hooks := v\<rparr>"
| "setattr_sys Path_importer_cache v s = s\<lparr>sys_path_importer_cache := v\<rparr>"

text \<open>The tuple of attributes and defaults that the \<^verbatim>\<open>for\<close> loop runs over.\<close>

definition import_state_defaults :: "(sys_attr \<times> pyval) list" where
  "import_state_defaults =
     [(Meta_path, PyList []), (Path, PyList []),
      (Path_hooks, PyList []), (Path_importer_cache, PyDict [])]"

type_synonym kwargs = "(string \<times> pyval) list"
type_synonym originals = "(sys_attr \<times> pyval) list"

text \<open>\<^verbatim>\<open>del kwargs[attr]\<close>\<close>

definition del_kwarg :: "string \<Rightarrow> kwargs \<Rightarrow> kwargs" where
  "del_kwarg k kw = filter (\<lambda>p. fst p \<noteq> k) kw"

text \<open>
  The \<^verbatim>\<open>for\<close> loop: saves each attribute in \<open>originals\<close>, takes its new value from
  \<open>kwargs\<close> (removing it there) or the default, and assigns it.
\<close>

fun import_state_loop ::
  "(sys_attr \<times> pyval) list \<Rightarrow> kwargs \<Rightarrow> originals \<Rightarrow> sys_state
     \<Rightarrow> kwargs \<times> originals \<times> sys_state" where
  "import_state_loop [] kw orig s = (kw, orig, s)"
| "import_state_loop ((attr, dflt) # rest) kw orig s =
     (let orig' = orig @ [(attr, getattr_sys s attr)] in
      (case map_of kw (attr_name attr) of
         Some new_value \<Rightarrow>
           import_state_loop rest (del_kwarg (attr_name attr) kw) orig'
             (setattr_sys attr new_value s)
       | None \<Rightarrow>
           import_state_loop rest kw orig' (setattr_sys attr dflt s)))"

text \<open>The \<^verbatim>\<open>finally\<close> block: every saved attribute is assigned its saved value.\<close>

fun import_state_exit :: "originals \<Rightarrow> sys_state \<Rightarrow> sys_state" where
  "import_state_exit [] s = s"
| "import_state_exit ((attr, v) # rest) s = import_state_exit rest (setattr_sys attr v s)"

text \<open>
  The generator up to its \<^verbatim>\<open>yield\<close>. When keyword arguments are left over it raises
  \<^verbatim>\<open>ValueError\<close> inside the \<^verbatim>\<open>try\<close>, so the \<^verbatim>\<open>finally\<close> block runs before the
  exception leaves the generator.
\<close>

definition import_state_enter :: "kwargs \<Rightarrow> sys_state \<Rightarrow> sys_state \<times> (exc + originals)" where
  "import_state_enter kw s =
     (case import_state_loop import_state_defaults kw [] s of
        (kw', orig, s1) \<Rightarrow>
          (if length kw' \<noteq> 0
           then (import_state_exit orig s1,
                 Inl (Exc ValueError (MsgKeys ''unrecognized arguments: {0}'' (map fst kw'))))
           else (s1, Inr orig)))"

text \<open>\<^verbatim>\<open>with import_state(**kwargs): body\<close>\<close>

definition import_state :: "kwargs \<Rightarrow> body \<Rightarrow> sys_state \<Rightarrow> sys_state \<times> exc option" where
  "import_state kw b s =
     (case import_state_enter kw s of
        (s1, Inl e) \<Rightarrow> (s1, Some e)
      | (s1, Inr orig) \<Rightarrow>
          (case b s1 of (s2, r) \<Rightarrow> (import_state_exit orig s2, r)))"

section \<open>\<^verbatim>\<open>temporary_pycache_prefix\<close> and \<^verbatim>\<open>writes_bytecode_files\<close>\<close>

text \<open>\<^verbatim>\<open>with temporary_pycache_prefix(prefix): body\<close>\<close>

definition temporary_pycache_prefix :: "pyval \<Rightarrow> body \<Rightarrow> sys_state \<Rightarrow> sys_state \<times> exc option" where
  "temporary_pycache_prefix prefix b s =
     (let orig_prefix = sys_pycache_prefix s in
      (case b (s\<lparr>sys_pycache_prefix := prefix\<rparr>) of
         (s2, r) \<Rightarrow> (s2\<lparr>sys_pycache_prefix := orig_prefix\<rparr>, r)))"

text \<open>
  A test function: called with its arguments, it changes the state and returns a value
  or raises.
\<close>

type_synonym 'a fxn = "'a \<Rightarrow> sys_state \<Rightarrow> sys_state \<times> (exc + pyval)"

text \<open>The inner \<^verbatim>\<open>wrapper\<close> of the decorator.\<close>

definition wrapper :: "'a fxn \<Rightarrow> 'a fxn" where
  "wrapper f args s =
     (let original = sys_dont_write_bytecode s in
      (case f args (s\<lparr>sys_dont_write_bytecode := False\<rparr>) of
         (s2, r) \<Rightarrow> (s2\<lparr>sys_dont_write_bytecode := original\<rparr>, r)))"

text \<open>
  The decorator, applied in the state \<open>s0\<close> of decoration time: it yields either the
  function that does nothing and returns \<^verbatim>\<open>None\<close>, or the wrapper.
\<close>

definition writes_bytecode_files :: "sys_state \<Rightarrow> 'a fxn \<Rightarrow> 'a fxn" where
  "writes_bytecode_files s0 f =
     (if sys_dont_write_bytecode s0 then (\<lambda>args s. (s, Inr PyNone)) else wrapper f)"

section \<open>The importer mocks\<close>

text \<open>
  An instance of \<^verbatim>\<open>_ImporterMock\<close> (and so of \<^verbatim>\<open>mock_modules\<close> and \<^verbatim>\<open>mock_spec\<close>):
  its identity and its two dictionaries. A registered module code is a callable without
  arguments, run for its effect on the interpreter; the methods below only read the two
  dictionaries.
\<close>

record importer =
  self_id :: nat
  modules :: "string \<rightharpoonup> pymodule"
  module_code :: "string \<rightharpoonup> body"

text \<open>The name under which \<^verbatim>\<open>__init__\<close> registers the module made for \<open>name\<close>.\<close>

definition import_name_of :: "string \<Rightarrow> string" where
  "import_name_of name =
     (if \<not> endswith name ''.__init__'' then name
      else take (length name - length ''.__init__'') name)"

definition package_of :: "string \<Rightarrow> string option" where
  "package_of name =
     (if CHR ''.'' \<notin> set name then None
      else if import_name_of name = name then Some (rsplit1_head CHR ''.'' name)
      else Some (import_name_of name))"

text \<open>The module object that one round of the loop in \<^verbatim>\<open>__init__\<close> builds.\<close>

definition new_module :: "nat \<Rightarrow> string \<Rightarrow> pymodule" where
  "new_module self name =
     \<lparr>mod_name = import_name_of name,
      mod_loader = self,
      mod_file = ''<mock __file__>'',
      mod_package = package_of name,
      mod_attr = name,
      mod_path = (if import_name_of name \<noteq> name then Some [''<mock __path__>''] else None),
      mod_spec = None\<rparr>"

fun ImporterMock_init_loop ::
  "(string \<rightharpoonup> body) \<Rightarrow> string list \<Rightarrow> importer \<Rightarrow> importer" where
  "ImporterMock_init_loop mc [] self = self"
| "ImporterMock_init_loop mc (name # names) self =
     ImporterMock_init_loop mc names
       (self\<lparr>modules := (modules self)(import_name_of name \<mapsto> new_module (self_id self) name),
             module_code :=
               (case mc (import_name_of name) of
                  None \<Rightarrow> module_code self
                | Some code \<Rightarrow> (module_code self)(import_name_of name \<mapsto> code))\<rparr>)"

text \<open>\<^verbatim>\<open>_ImporterMock(*names, module_code=mc)\<close> for the new object \<open>self\<close>.\<close>

definition ImporterMock_init :: "nat \<Rightarrow> string list \<Rightarrow> (string \<rightharpoonup> body) \<Rightarrow> importer" where
  "ImporterMock_init self names mc =
     ImporterMock_init_loop mc names
       \<lparr>self_id = self, modules = Map.empty, module_code = Map.empty\<rparr>"

text \<open>\<^verbatim>\<open>self[name]\<close>: the lookup in \<^verbatim>\<open>self.modules\<close>, with the \<^verbatim>\<open>KeyError\<close> of the dictionary.\<close>

definition getitem :: "importer \<Rightarrow> string \<Rightarrow> exc + pymodule" where
  "getitem self name =
     (case modules self name of
        None \<Rightarrow> Inl (Exc KeyError (Msg name))
      | Some m \<Rightarrow> Inr m)"

text \<open>
  \<^verbatim>\<open>with importer: body\<close>, where \<open>keys\<close> are the keys of \<^verbatim>\<open>self.modules\<close> in the
  order of their insertion. \<^verbatim>\<open>__enter__\<close> makes \<^verbatim>\<open>uncache(*keys)\<close> and enters it;
  \<^verbatim>\<open>__exit__\<close> exits it with \<^verbatim>\<open>(None, None, None)\<close> whatever the body did and returns
  \<^verbatim>\<open>None\<close>, so that an exception of the body goes on.
\<close>

definition ImporterMock_enter :: "string list \<Rightarrow> sys_state \<Rightarrow> sys_state \<times> exc option" where
  "ImporterMock_enter keys s = uncache_enter keys s"

definition ImporterMock_exit :: "string list \<Rightarrow> sys_state \<Rightarrow> sys_state" where
  "ImporterMock_exit keys s = uncache_exit keys s"

definition ImporterMock_with :: "string list \<Rightarrow> body \<Rightarrow> sys_state \<Rightarrow> sys_state \<times> exc option" where
  "ImporterMock_with keys b s =
     (case ImporterMock_enter keys s of
        (s1, Some e) \<Rightarrow> (s1, Some e)
      | (s1, None) \<Rightarrow>
          (case b s1 of (s2, r) \<Rightarrow> (ImporterMock_exit keys s2, r)))"

subsection \<open>\<^verbatim>\<open>mock_modules\<close>\<close>

definition find_module :: "importer \<Rightarrow> string \<Rightarrow> pyval \<Rightarrow> importer option" where
  "find_module self fullname path =
     (case modules self fullname of
        None \<Rightarrow> None
      | Some m \<Rightarrow> Some self)"

text \<open>
  \<^verbatim>\<open>except Exception\<close> catches the instances of \<^verbatim>\<open>Exception\<close> only; the
  \<^verbatim>\<open>del\<close> in the handler raises \<^verbatim>\<open>KeyError\<close> itself when the entry is gone.
\<close>

definition load_module :: "importer \<Rightarrow> string \<Rightarrow> sys_state \<Rightarrow> sys_state \<times> (exc + pymodule)" where
  "load_module self fullname s =
     (case modules self fullname of
        None \<Rightarrow> (s, Inl (Exc ImportError NoArgs))
      | Some m \<Rightarrow>
          (let s1 = s\<lparr>sys_modules := (sys_modules s)(fullname \<mapsto> m)\<rparr> in
           (case module_code self fullname of
              None \<Rightarrow> (s1, Inr m)
            | Some code \<Rightarrow>
                (case code s1 of
                   (s2, None) \<Rightarrow> (s2, Inr m)
                 | (s2, Some e) \<Rightarrow>
                     (if isinstance e Exception
                      then (case sys_modules s2 fullname of
                              None \<Rightarrow> (s2, Inl (Exc KeyError (Msg fullname)))
                            | Some m' \<Rightarrow>
                                (s2\<lparr>sys_modules := (sys_modules s2)(fullname := None)\<rparr>, Inl e))
                      else (s2, Inl e))))))"

subsection \<open>\<^verbatim>\<open>mock_spec\<close>\<close>

text \<open>
  \<^verbatim>\<open>importlib.util.spec_from_file_location\<close> belongs to the host and is a parameter
  \<open>sffl\<close>: from the name, the location, the loader and the submodule search locations
  it returns a spec or \<^verbatim>\<open>None\<close>, or raises.
\<close>

type_synonym 'sp spec_from_file_location =
  "string \<Rightarrow> string \<Rightarrow> nat \<Rightarrow> string list option \<Rightarrow> exc + 'sp option"

definition find_spec ::
  "'sp spec_from_file_location \<Rightarrow> importer \<Rightarrow> string \<Rightarrow> pyval \<Rightarrow> pyval \<Rightarrow> exc + 'sp option" where
  "find_spec sffl self fullname path parent =
     (case modules self fullname of
        None \<Rightarrow> Inr None
      | Some m \<Rightarrow> sffl fullname (mod_file m) (self_id self) (mod_path m))"

definition create_module :: "importer \<Rightarrow> module_spec \<Rightarrow> exc + pymodule" where
  "create_module self spec =
     (case modules self (spec_name spec) of
        None \<Rightarrow> Inl (Exc ImportError NoArgs)
      | Some m \<Rightarrow> Inr m)"

text \<open>
  Reading \<^verbatim>\<open>module.__spec__.name\<close> of a module whose \<^verbatim>\<open>__spec__\<close> is \<^verbatim>\<open>None\<close> raises
  \<^verbatim>\<open>AttributeError\<close> (its message is left out). \<^verbatim>\<open>except KeyError\<close> covers the lookup
  in \<^verbatim>\<open>module_code\<close> and the call of the code alike.
\<close>

definition exec_module :: "importer \<Rightarrow> pymodule \<Rightarrow> sys_state \<Rightarrow> sys_state \<times> exc option" where
  "exec_module self m s =
     (case mod_spec m of
        None \<Rightarrow> (s, Some (Exc AttributeError NoArgs))
      | Some spec \<Rightarrow>
          (case module_code self (spec_name spec) of
             None \<Rightarrow> (s, None)
           | Some code \<Rightarrow>
               (case code s of
                  (s2, None) \<Rightarrow> (s2, None)
                | (s2, Some e) \<Rightarrow>
                    (if isinstance e KeyError then (s2, None) else (s2, Some e)))))"

subsection \<open>\<^verbatim>\<open>mock_path_hook\<close>\<close>

text \<open>The \<^verbatim>\<open>hook\<close> closure that \<^verbatim>\<open>mock_path_hook(*entries, importer=importer)\<close> returns.\<close>

definition mock_path_hook :: "'e list \<Rightarrow> 'i \<Rightarrow> 'e \<Rightarrow> exc + 'i" where
  "mock_path_hook entries imp entry =
     (if entry \<notin> set entries then Inl (Exc ImportError NoArgs) else Inr imp)"

section \<open>\<^verbatim>\<open>create_package\<close> and its resource reader\<close>

text \<open>
  An instance of the local class \<^verbatim>\<open>Reader\<close>: the variables \<^verbatim>\<open>file\<close>, \<^verbatim>\<open>path\<close> and
  \<^verbatim>\<open>contents\<close> of the enclosing call, and the attribute \<^verbatim>\<open>_path\<close>, unset at first.
\<close>

record reader =
  r_file :: pyval
  r_path :: pyval
  r_contents :: "string list"
  r_recorded :: "string option"

definition get_resource_reader :: "reader \<Rightarrow> string \<Rightarrow> reader" where
  "get_resource_reader self package = self"

definition open_resource :: "reader \<Rightarrow> string \<Rightarrow> reader \<times> (exc + pyval)" where
  "open_resource self p =
     (self\<lparr>r_recorded := Some p\<rparr>,
      (case r_file self of
         PyExc e \<Rightarrow> (if isinstance e Exception then Inl e else Inr (r_file self))
       | v \<Rightarrow> Inr (r_file self)))"

definition resource_path :: "reader \<Rightarrow> string \<Rightarrow> reader \<times> (exc + pyval)" where
  "resource_path self p =
     (self\<lparr>r_recorded := Some p\<rparr>,
      (case r_path self of
         PyExc e \<Rightarrow> (if isinstance e Exception then Inl e else Inr (r_path self))
       | v \<Rightarrow> Inr (r_path self)))"

text \<open>The \<^verbatim>\<open>for\<close> loop of \<^verbatim>\<open>is_resource\<close>.\<close>

fun is_resource_loop :: "string list \<Rightarrow> string \<Rightarrow> bool" where
  "is_resource_loop [] p = False"
| "is_resource_loop (entry # rest) p =
     (let parts = split CHR ''/'' entry in
      if length parts = 1 \<and> hd parts = p then True else is_resource_loop rest p)"

definition is_resource :: "reader \<Rightarrow> string \<Rightarrow> reader \<times> (exc + bool)" where
  "is_resource self p =
     (self\<lparr>r_recorded := Some p\<rparr>,
      (case r_path self of
         PyExc e \<Rightarrow>
           (if isinstance e Exception then Inl e
            else Inr (is_resource_loop (r_contents self) p))
       | v \<Rightarrow> Inr (is_resource_loop (r_contents self) p)))"

text \<open>
  \<^verbatim>\<open>contents\<close> holds a \<^verbatim>\<open>yield\<close>, so it is a generator function: the call runs none
  of its body and returns a generator, whose body runs step by step under \<^verbatim>\<open>next\<close>.
\<close>

datatype gen_pc = Unstarted | Running | Finished

record contents_gen =
  g_pc :: gen_pc
  g_path :: pyval
  g_rest :: "string list"

datatype step = Yield string | Raise exc | StopIteration

definition contents :: "reader \<Rightarrow> exc + contents_gen" where
  "contents self = Inr \<lparr>g_pc = Unstarted, g_path = r_path self, g_rest = r_contents self\<rparr>"

definition contents_loop :: "contents_gen \<Rightarrow> contents_gen \<times> step" where
  "contents_loop g =
     (case g_rest g of
        [] \<Rightarrow> (g\<lparr>g_pc := Finished\<rparr>, StopIteration)
      | entry # rest \<Rightarrow> (g\<lparr>g_pc := Running, g_rest := rest\<rparr>, Yield entry))"

text \<open>\<^verbatim>\<open>next(g)\<close>\<close>

definition gen_next :: "contents_gen \<Rightarrow> contents_gen \<times> step" where
  "gen_next g =
     (case g_pc g of
        Finished \<Rightarrow> (g, StopIteration)
      | Running \<Rightarrow> contents_loop g
      | Unstarted \<Rightarrow>
          (case g_path g of
             PyExc e \<Rightarrow>
               (if isinstance e Exception then (g\<lparr>g_pc := Finished\<rparr>, Raise e)
                else contents_loop g)
           | v \<Rightarrow> contents_loop g))"

text \<open>The results of \<open>n\<close> successive calls of \<^verbatim>\<open>next\<close>.\<close>

fun gen_nexts :: "nat \<Rightarrow> contents_gen \<Rightarrow> step list" where
  "gen_nexts 0 g = []"
| "gen_nexts (Suc n) g = (case gen_next g of (g', r) \<Rightarrow> r # gen_nexts n g')"

text \<open>
  The module that \<^verbatim>\<open>create_package\<close> returns. Its \<^verbatim>\<open>__loader__\<close> is the new reader,
  which is the loader of its \<^verbatim>\<open>__spec__\<close> as well.
\<close>

record package =
  pkg_name :: string
  pkg_spec :: module_spec
  pkg_loader :: reader

definition create_package :: "pyval \<Rightarrow> pyval \<Rightarrow> bool \<Rightarrow> string list \<Rightarrow> package" where
  "create_package file path is_package cont =
     \<lparr>pkg_name = ''testingpackage'',
      pkg_spec = \<lparr>spec_name = ''testingpackage'', spec_origin = Some ''does-not-exist'',
                  spec_is_package = is_package\<rparr>,
      pkg_loader = \<lparr>r_file = file, r_path = path, r_contents = cont, r_recorded = None\<rparr>\<rparr>"

section \<open>\<^verbatim>\<open>create_modules\<close>\<close>

text \<open>
  The functions of the host that \<^verbatim>\<open>create_modules\<close> calls are parameters, over any
  type \<open>'fs\<close> of file systems: \<^verbatim>\<open>tempfile.mkdtemp\<close>, \<^verbatim>\<open>os.path.join\<close>,
  \<^verbatim>\<open>os.path.exists\<close>, \<^verbatim>\<open>os.mkdir\<close>, opening a file for writing and writing a text
  to it, \<^verbatim>\<open>support.rmtree\<close>, and \<^verbatim>\<open>repr\<close> of a string. Each one that can fail returns
  the file system it leaves and the exception it raises, if any.
\<close>

record 'fs host =
  tempfile_mkdtemp :: "'fs \<Rightarrow> 'fs \<times> (exc + string)"
  os_path_join :: "string \<Rightarrow> string \<Rightarrow> string"
  os_path_exists :: "'fs \<Rightarrow> string \<Rightarrow> bool"
  os_mkdir :: "string \<Rightarrow> 'fs \<Rightarrow> 'fs \<times> exc option"
  open_write :: "string \<Rightarrow> string \<Rightarrow> 'fs \<Rightarrow> 'fs \<times> exc option"
  support_rmtree :: "string \<Rightarrow> 'fs \<Rightarrow> 'fs \<times> exc option"
  repr_str :: "string \<Rightarrow> string"

text \<open>
  The name under which \<^verbatim>\<open>create_modules\<close> uncaches the module made for \<open>name\<close>. The
  test is for the suffix \<^verbatim>\<open>__init__\<close>, the slice cuts the length of \<^verbatim>\<open>.__init__\<close>.
\<close>

definition cm_import_name :: "string \<Rightarrow> string" where
  "cm_import_name name =
     (if \<not> endswith name ''__init__'' then name
      else take (length name - length ''.__init__'') name)"

text \<open>
  The local variables of the generator that live across the loop. \<open>import_names\<close> is a
  set; it is kept as the list of its elements in the order of their first insertion,
  which is the order in which the model hands them to \<^verbatim>\<open>uncache\<close>.
\<close>

record cm_locals =
  created_paths :: "string list"
  mapping :: "string \<rightharpoonup> string"
  import_names :: "string list"

text \<open>The inner loop over \<^verbatim>\<open>name_parts[:-1]\<close>: it returns the directory reached.\<close>

fun make_dirs ::
  "'fs host \<Rightarrow> string list \<Rightarrow> string \<Rightarrow> string list \<Rightarrow> 'fs
     \<Rightarrow> 'fs \<times> string list \<times> (exc + string)" where
  "make_dirs h [] file_path created fs = (fs, created, Inr file_path)"
| "make_dirs h (directory # rest) file_path created fs =
     (let file_path' = os_path_join h file_path directory in
      if \<not> os_path_exists h fs file_path'
      then (case os_mkdir h file_path' fs of
              (fs', Some e) \<Rightarrow> (fs', created, Inl e)
            | (fs', None) \<Rightarrow> make_dirs h rest file_path' (created @ [file_path']) fs')
      else make_dirs h rest file_path' created fs)"

text \<open>One round of the loop over \<open>names\<close>.\<close>

definition create_one ::
  "'fs host \<Rightarrow> string \<Rightarrow> string \<Rightarrow> cm_locals \<Rightarrow> sys_state \<times> 'fs
     \<Rightarrow> cm_locals \<times> (sys_state \<times> 'fs) \<times> exc option" where
  "create_one h temp_dir name loc w =
     (case w of (s, fs) \<Rightarrow>
      (let import_name = cm_import_name name;
           loc1 = loc\<lparr>import_names :=
                    (if import_name \<in> set (import_names loc) then import_names loc
                     else import_names loc @ [import_name])\<rparr>;
           s1 = (case sys_modules s import_name of
                   None \<Rightarrow> s
                 | Some m \<Rightarrow> s\<lparr>sys_modules := (sys_modules s)(import_name := None)\<rparr>);
           name_parts = split CHR ''.'' name
       in (case make_dirs h (butlast name_parts) temp_dir (created_paths loc1) fs of
             (fs1, created, Inl e) \<Rightarrow> (loc1\<lparr>created_paths := created\<rparr>, (s1, fs1), Some e)
           | (fs1, created, Inr dir_path) \<Rightarrow>
               (let file_path = os_path_join h dir_path (last name_parts @ ''.py'') in
                (case open_write h file_path (''attr = '' @ repr_str h name) fs1 of
                   (fs2, Some e) \<Rightarrow> (loc1\<lparr>created_paths := created\<rparr>, (s1, fs2), Some e)
                 | (fs2, None) \<Rightarrow>
                     (loc1\<lparr>created_paths := created @ [file_path],
                           mapping := (mapping loc1)(name \<mapsto> file_path)\<rparr>,
                      (s1, fs2), None))))))"

fun create_all ::
  "'fs host \<Rightarrow> string \<Rightarrow> string list \<Rightarrow> cm_locals \<Rightarrow> sys_state \<times> 'fs
     \<Rightarrow> cm_locals \<times> (sys_state \<times> 'fs) \<times> exc option" where
  "create_all h temp_dir [] loc w = (loc, w, None)"
| "create_all h temp_dir (name # names) loc w =
     (case create_one h temp_dir name loc w of
        (loc', w', Some e) \<Rightarrow> (loc', w', Some e)
      | (loc', w', None) \<Rightarrow> create_all h temp_dir names loc' w')"

text \<open>
  A context manager held in a local variable: still \<^verbatim>\<open>None\<close>, or a generator that has
  finished (its \<^verbatim>\<open>__enter__\<close> raised), or a generator suspended at its \<^verbatim>\<open>yield\<close>
  with what its \<^verbatim>\<open>finally\<close> block needs.
\<close>

datatype 'g manager = Unset | Exhausted | Suspended 'g

text \<open>What the \<^verbatim>\<open>finally\<close> block of \<^verbatim>\<open>create_modules\<close> reads.\<close>

record cm_frame =
  temp_dir :: "string option"
  uncache_manager :: "string list manager"
  state_manager :: "originals manager"
  yielded :: "string \<rightharpoonup> string"

text \<open>
  The generator up to its \<^verbatim>\<open>yield\<close>: the state it leaves, the frame, and the exception
  that stopped it, if any.
\<close>

definition create_modules_enter ::
  "'fs host \<Rightarrow> string list \<Rightarrow> sys_state \<times> 'fs \<Rightarrow> (sys_state \<times> 'fs) \<times> cm_frame \<times> exc option" where
  "create_modules_enter h names w =
     (case w of (s, fs) \<Rightarrow>
      (case tempfile_mkdtemp h fs of
         (fs0, Inl e) \<Rightarrow>
           ((s, fs0),
            \<lparr>temp_dir = None, uncache_manager = Unset, state_manager = Unset,
             yielded = Map.empty\<rparr>, Some e)
       | (fs0, Inr td) \<Rightarrow>
           (case create_all h td names
                   \<lparr>created_paths = [], mapping = [''.root'' \<mapsto> td], import_names = []\<rparr>
                   (s, fs0) of
              (loc, w1, Some e) \<Rightarrow>
                (w1,
                 \<lparr>temp_dir = Some td, uncache_manager = Unset, state_manager = Unset,
                  yielded = mapping loc\<rparr>, Some e)
            | (loc, (s1, fs1), None) \<Rightarrow>
                (case uncache_enter (import_names loc) s1 of
                   (s2, Some e) \<Rightarrow>
                     ((s2, fs1),
                      \<lparr>temp_dir = Some td, uncache_manager = Exhausted, state_manager = Unset,
                       yielded = mapping loc\<rparr>, Some e)
                 | (s2, None) \<Rightarrow>
                     (case import_state_enter [(''path'', PyList [PyStr td])] s2 of
                        (s3, Inl e) \<Rightarrow>
                          ((s3, fs1),
                           \<lparr>temp_dir = Some td,
                            uncache_manager = Suspended (import_names loc),
                            state_manager = Exhausted, yielded = mapping loc\<rparr>, Some e)
                      | (s3, Inr orig) \<Rightarrow>
                          ((s3, fs1),
                           \<lparr>temp_dir = Some td,
                            uncache_manager = Suspended (import_names loc),
                            state_manager = Suspended orig, yielded = mapping loc\<rparr>,
                           None))))))"

text \<open>
  The \<^verbatim>\<open>finally\<close> block. \<^verbatim>\<open>__exit__(None, None, None)\<close> resumes a suspended generator,
  which runs its own \<^verbatim>\<open>finally\<close> block, and does nothing on a finished one. With
  \<^verbatim>\<open>temp_dir\<close> unbound the last line raises \<^verbatim>\<open>UnboundLocalError\<close> (message left out).
\<close>

definition create_modules_finally ::
  "'fs host \<Rightarrow> cm_frame \<Rightarrow> sys_state \<times> 'fs \<Rightarrow> (sys_state \<times> 'fs) \<times> exc option" where
  "create_modules_finally h fr w =
     (case w of (s, fs) \<Rightarrow>
      (let s1 = (case state_manager fr of
                   Suspended orig \<Rightarrow> import_state_exit orig s
                 | Exhausted \<Rightarrow> s
                 | Unset \<Rightarrow> s);
           s2 = (case uncache_manager fr of
                   Suspended names \<Rightarrow> uncache_exit names s1
                 | Exhausted \<Rightarrow> s1
                 | Unset \<Rightarrow> s1)
       in (case temp_dir fr of
             None \<Rightarrow> ((s2, fs), Some (Exc UnboundLocalError NoArgs))
           | Some td \<Rightarrow>
               (case support_rmtree h td fs of (fs', r) \<Rightarrow> ((s2, fs'), r)))))"

text \<open>
  \<^verbatim>\<open>with create_modules(*names) as mapping: body\<close>. An exception raised in the
  \<^verbatim>\<open>finally\<close> block replaces the one that was on its way.
\<close>

definition create_modules ::
  "'fs host \<Rightarrow> string list \<Rightarrow> ((string \<rightharpoonup> string) \<Rightarrow> sys_state \<times> 'fs \<Rightarrow> (sys_state \<times> 'fs) \<times> exc option)
     \<Rightarrow> sys_state \<times> 'fs \<Rightarrow> (sys_state \<times> 'fs) \<times> exc option" where
  "create_modules h names b w =
     (case create_modules_enter h names w of
        (w1, fr, Some e) \<Rightarrow>
          (case create_modules_finally h fr w1 of
             (w2, Some e') \<Rightarrow> (w2, Some e')
           | (w2, None) \<Rightarrow> (w2, Some e))
      | (w1, fr, None) \<Rightarrow>
          (case b (yielded fr) w1 of
             (w2, r) \<Rightarrow>
               (case create_modules_finally h fr w2 of
                  (w3, Some e') \<Rightarrow> (w3, Some e')
                | (w3, None) \<Rightarrow> (w3, r))))"

section \<open>\<^verbatim>\<open>ensure_bytecode_path\<close>\<close>

text \<open>
  \<^verbatim>\<open>os.path.dirname\<close> and the constant \<^verbatim>\<open>errno.EEXIST\<close> of the host are the parameters
  \<open>dirname\<close> and \<open>eexist\<close>. \<^verbatim>\<open>except OSError\<close> takes the instances of \<^verbatim>\<open>OSError\<close>
  only, and the handler raises the exception again unless its \<^verbatim>\<open>errno\<close> is
  \<^verbatim>\<open>errno.EEXIST\<close>.
\<close>

definition ensure_bytecode_path ::
  "'fs host \<Rightarrow> (string \<Rightarrow> string) \<Rightarrow> nat \<Rightarrow> string \<Rightarrow> 'fs \<Rightarrow> 'fs \<times> exc option" where
  "ensure_bytecode_path h dirname eexist bytecode_path fs =
     (case os_mkdir h (dirname bytecode_path) fs of
        (fs', None) \<Rightarrow> (fs', None)
      | (fs', Some error) \<Rightarrow>
          (if isinstance error OSError
           then (if exc_errno error \<noteq> Some eexist then (fs', Some error) else (fs', None))
           else (fs', Some error)))"

text \<open>The exception \<open>e\<close> is one that a function of the host raised.\<close>

abbreviation host_raises :: "'fs host \<Rightarrow> exc \<Rightarrow> bool" where
  "host_raises h e \<equiv>
     (\<exists>fs fs'. tempfile_mkdtemp h fs = (fs', Inl e)) \<or>
     (\<exists>p fs fs'. os_mkdir h p fs = (fs', Some e)) \<or>
     (\<exists>p t fs fs'. open_write h p t fs = (fs', Some e)) \<or>
     (\<exists>p fs fs'. support_rmtree h p fs = (fs', Some e))"

section \<open>Inputs for the examples\<close>

text \<open>A body that does nothing, and one that raises at once.\<close>

definition pass_body :: body where
  "pass_body s = (s, None)"

definition raise_body :: "exc \<Rightarrow> body" where
  "raise_body e s = (s, Some e)"

text \<open>An interpreter with two cached modules.\<close>

definition example_sys :: sys_state where
  "example_sys =
     \<lparr>sys_meta_path = PyList [PyObj 1],
      sys_path = PyList [PyStr ''/usr/lib/python''],
      sys_path_hooks = PyList [PyObj 2],
      sys_path_importer_cache = PyDict [(PyStr ''/usr/lib/python'', PyObj 3)],
      sys_pycache_prefix = PyNone,
      sys_dont_write_bytecode = False,
      sys_modules = [''foo'' \<mapsto> new_module 0 ''foo'', ''os'' \<mapsto> new_module 7 ''os'']\<rparr>"

definition empty_sys :: sys_state where
  "empty_sys = example_sys\<lparr>sys_modules := Map.empty\<rparr>"

text \<open>A \<^verbatim>\<open>mock_modules\<close> or \<^verbatim>\<open>mock_spec\<close> for the one module \<^verbatim>\<open>foo\<close>, with its code.\<close>

definition foo_importer :: "body \<Rightarrow> importer" where
  "foo_importer code = ImporterMock_init 0 [''foo''] [''foo'' \<mapsto> code]"

definition example_spec :: module_spec where
  "example_spec = \<lparr>spec_name = ''foo'', spec_origin = None, spec_is_package = False\<rparr>"

text \<open>A stand-in for \<^verbatim>\<open>spec_from_file_location\<close> that always builds a spec.\<close>

definition example_sffl :: "module_spec spec_from_file_location" where
  "example_sffl name location loader search =
     Inr (Some \<lparr>spec_name = name, spec_origin = Some location,
                 spec_is_package = (search \<noteq> None)\<rparr>)"

text \<open>Modules as the import system hands them to \<^verbatim>\<open>exec_module\<close>, with their spec set.\<close>

definition foo_with_spec :: pymodule where
  "foo_with_spec = (new_module 0 ''foo'')\<lparr>mod_spec := Some example_spec\<rparr>"

definition bar_with_spec :: pymodule where
  "bar_with_spec = (new_module 0 ''bar'')\<lparr>mod_spec := Some (example_spec\<lparr>spec_name := ''bar''\<rparr>)\<rparr>"

text \<open>Two test packages: one whose file and path are exceptions, one with data.\<close>

definition failing_package :: package where
  "failing_package =
     create_package (PyExc (Exc OSError NoArgs)) (PyExc (Exc OSError NoArgs)) True [''a'', ''b/c'']"

definition data_package :: package where
  "data_package = create_package (PyStr ''data'') (PyStr ''/pkg'') True [''a'', ''b/c'']"

text \<open>
  A host whose file system is the list of the paths that exist, and in which nothing
  fails; a body for \<^verbatim>\<open>create_modules\<close> that does nothing.
\<close>

definition example_host :: "string list host" where
  "example_host =
     \<lparr>tempfile_mkdtemp = (\<lambda>fs. (''/tmp/t'' # fs, Inr ''/tmp/t'')),
      os_path_join = (\<lambda>a b. a @ ''/'' @ b),
      os_path_exists = (\<lambda>fs p. p \<in> set fs),
      os_mkdir = (\<lambda>p fs. (p # fs, None)),
      open_write = (\<lambda>p text fs. (p # fs, None)),
      support_rmtree = (\<lambda>p fs. (filter (\<lambda>q. take (length p) q \<noteq> p) fs, None)),
      repr_str = (\<lambda>s. [CHR 0x27] @ s @ [CHR 0x27])\<rparr>"

definition pass_cm_body :: "(string \<rightharpoonup> string) \<Rightarrow> sys_state \<times> string list \<Rightarrow> (sys_state \<times> string list) \<times> exc option" where
  "pass_cm_body m w = (w, None)"

text \<open>An exception of a class that the test code defines, and callables that raise.\<close>

definition test_error :: exc where
  "test_error = Exc (UserClass 1 Exception) (Msg ''raised by the test'')"

definition raise_fxn :: "exc \<Rightarrow> pyval list fxn" where
  "raise_fxn e args s = (s, Inl e)"

definition raising_sffl :: "exc \<Rightarrow> module_spec spec_from_file_location" where
  "raising_sffl e name location loader search = Inl e"

text \<open>Module code that removes the entry of its own module and then raises.\<close>

definition delete_and_raise :: "string \<Rightarrow> exc \<Rightarrow> body" where
  "delete_and_raise name e s = (s\<lparr>sys_modules := (sys_modules s)(name := None)\<rparr>, Some e)"

text \<open>
  Hosts in which something fails: \<^verbatim>\<open>mkdtemp\<close> on a full disk, and \<^verbatim>\<open>mkdir\<close> for a
  directory that exists or that may not be made.
\<close>

definition full_disk_host :: "string list host" where
  "full_disk_host =
     example_host\<lparr>tempfile_mkdtemp :=
       (\<lambda>fs. (fs, Inl (Exc OSError (OSArgs 28 ''No space left on device''))))\<rparr>"

definition mkdir_fails_host :: "nat \<Rightarrow> string list host" where
  "mkdir_fails_host n =
     example_host\<lparr>os_mkdir := (\<lambda>p fs. (fs, Some (Exc OSError (OSArgs n ''mkdir failed''))))\<rparr>"

text \<open>A stand-in for \<^verbatim>\<open>os.path.dirname\<close> on paths with \<^verbatim>\<open>/\<close>.\<close>

definition example_dirname :: "string \<Rightarrow> string" where
  "example_dirname p = rsplit1_head CHR ''/'' p"

text \<open>A body for \<^verbatim>\<open>create_modules\<close> that raises at once.\<close>

definition raise_cm_body :: "exc \<Rightarrow> (string \<rightharpoonup> string) \<Rightarrow> sys_state \<times> string list \<Rightarrow> (sys_state \<times> string list) \<times> exc option" where
  "raise_cm_body e mp w = (w, Some e)"

text \<open>A \<^verbatim>\<open>KeyError\<close> as registered module code may raise it.\<close>

definition key_error :: exc where
  "key_error = Exc KeyError (Msg ''missing'')"

definition failing_gen :: contents_gen where
  "failing_gen = \<lparr>g_pc = Unstarted, g_path = PyExc (Exc OSError NoArgs), g_rest = [''a'', ''b/c'']\<rparr>"

section \<open>Saving and restoring the attributes of \<^verbatim>\<open>sys\<close>\<close>

lemma getattr_setattr:
  "getattr_sys (setattr_sys a v s) b = (if a = b then v else getattr_sys s b)"
  by (cases a; cases b) simp_all

lemma setattr_frame:
  "sys_pycache_prefix (setattr_sys a v s) = sys_pycache_prefix s"
  "sys_dont_write_bytecode (setattr_sys a v s) = sys_dont_write_bytecode s"
  "sys_modules (setattr_sys a v s) = sys_modules s"
  by (cases a; simp)+

text \<open>The loop leaves in \<open>kwargs\<close> exactly the entries whose key it does not know.\<close>

lemma import_state_loop_kwargs:
  "fst (import_state_loop l kw orig s) = filter (\<lambda>p. fst p \<notin> attr_name ` fst ` set l) kw"
proof (induction l arbitrary: kw orig s)
  case Nil
  then show ?case by simp
next
  case (Cons a l)
  obtain attr dflt where a: "a = (attr, dflt)" by (cases a)
  show ?case
  proof (cases "map_of kw (attr_name attr)")
    case None
    then have "attr_name attr \<notin> fst ` set kw" by (simp add: map_of_eq_None_iff)
    then have "\<And>p. p \<in> set kw \<Longrightarrow> fst p \<noteq> attr_name attr" by force
    then have "filter (\<lambda>p. fst p \<notin> attr_name ` fst ` set l) kw
       = filter (\<lambda>p. fst p \<notin> attr_name ` fst ` set (a # l)) kw"
      by (intro filter_cong) (auto simp: a)
    with None show ?thesis by (simp add: a Cons.IH Let_def)
  next
    case (Some v)
    have "filter (\<lambda>p. fst p \<notin> attr_name ` fst ` set l) (del_kwarg (attr_name attr) kw)
       = filter (\<lambda>p. fst p \<notin> attr_name ` fst ` set (a # l)) kw"
      unfolding del_kwarg_def filter_filter by (intro filter_cong) (auto simp: a)
    with Some show ?thesis by (simp add: a Cons.IH Let_def)
  qed
qed

text \<open>Over distinct attributes, \<open>originals\<close> receives the values of the state at entry.\<close>

lemma import_state_loop_originals:
  "distinct (map fst l) \<Longrightarrow>
   fst (snd (import_state_loop l kw orig s)) = orig @ map (\<lambda>p. (fst p, getattr_sys s (fst p))) l"
proof (induction l arbitrary: kw orig s)
  case Nil
  then show ?case by simp
next
  case (Cons a l)
  obtain attr dflt where a: "a = (attr, dflt)" by (cases a)
  from Cons.prems have d: "distinct (map fst l)" and n: "attr \<notin> fst ` set l"
    by (simp_all add: a)
  have same: "map (\<lambda>p. (fst p, getattr_sys (setattr_sys attr v s) (fst p))) l
            = map (\<lambda>p. (fst p, getattr_sys s (fst p))) l" for v
    using n by (intro map_cong) (auto simp: getattr_setattr)
  show ?case
    by (cases "map_of kw (attr_name attr)") (simp_all add: a Let_def Cons.IH [OF d] same)
qed

lemma import_state_loop_frame:
  "sys_pycache_prefix (snd (snd (import_state_loop l kw orig s))) = sys_pycache_prefix s \<and>
   sys_dont_write_bytecode (snd (snd (import_state_loop l kw orig s))) = sys_dont_write_bytecode s \<and>
   sys_modules (snd (snd (import_state_loop l kw orig s))) = sys_modules s"
proof (induction l arbitrary: kw orig s)
  case Nil
  then show ?case by simp
next
  case (Cons a l)
  obtain attr dflt where a: "a = (attr, dflt)" by (cases a)
  show ?case
    by (cases "map_of kw (attr_name attr)") (simp_all add: a Let_def Cons.IH setattr_frame)
qed

lemma import_state_exit_frame:
  "sys_pycache_prefix (import_state_exit orig s) = sys_pycache_prefix s \<and>
   sys_dont_write_bytecode (import_state_exit orig s) = sys_dont_write_bytecode s \<and>
   sys_modules (import_state_exit orig s) = sys_modules s"
  by (induction orig s rule: import_state_exit.induct) (simp_all add: setattr_frame)

lemma import_state_saved:
  "fst (snd (import_state_loop import_state_defaults kw [] s)) =
     [(Meta_path, sys_meta_path s), (Path, sys_path s),
      (Path_hooks, sys_path_hooks s), (Path_importer_cache, sys_path_importer_cache s)]"
  by (subst import_state_loop_originals) (simp_all add: import_state_defaults_def)

lemma import_state_exit_saved:
  "import_state_exit [(Meta_path, a), (Path, b), (Path_hooks, c), (Path_importer_cache, d)] s
     = s\<lparr>sys_meta_path := a, sys_path := b, sys_path_hooks := c, sys_path_importer_cache := d\<rparr>"
  by simp

lemma import_state_restores:
  "import_state_exit (fst (snd (import_state_loop import_state_defaults kw [] s))) s2
     = s2\<lparr>sys_meta_path := sys_meta_path s, sys_path := sys_path s,
          sys_path_hooks := sys_path_hooks s,
          sys_path_importer_cache := sys_path_importer_cache s\<rparr>"
  by (simp only: import_state_saved import_state_exit_saved)

text \<open>
  Whatever the keyword arguments and the body, \<^verbatim>\<open>import_state\<close> ends in a state whose
  four attributes are those of the state it started in.
\<close>

lemma import_state_fst:
  "\<exists>s2. fst (import_state kw b s)
     = s2\<lparr>sys_meta_path := sys_meta_path s, sys_path := sys_path s,
          sys_path_hooks := sys_path_hooks s,
          sys_path_importer_cache := sys_path_importer_cache s\<rparr>"
proof -
  obtain kw' orig s1 where l: "import_state_loop import_state_defaults kw [] s = (kw', orig, s1)"
    by (cases "import_state_loop import_state_defaults kw [] s")
  have r: "import_state_exit orig s2
     = s2\<lparr>sys_meta_path := sys_meta_path s, sys_path := sys_path s,
          sys_path_hooks := sys_path_hooks s,
          sys_path_importer_cache := sys_path_importer_cache s\<rparr>" for s2
    using import_state_restores [of kw s s2] by (simp add: l)
  show ?thesis
  proof (cases "length kw' \<noteq> 0")
    case True
    then show ?thesis
      by (auto simp: import_state_def import_state_enter_def l r)
  next
    case False
    then show ?thesis
      by (cases "b s1") (auto simp: import_state_def import_state_enter_def l r)
  qed
qed

text \<open>
  Claim C1. Every use of \<^verbatim>\<open>import_state\<close> (with any keyword arguments),
  of \<^verbatim>\<open>temporary_pycache_prefix\<close> and of the wrapper made by \<^verbatim>\<open>writes_bytecode_files\<close>
  ends with the attributes of \<^verbatim>\<open>sys\<close> that it replaces bound to the values they had on
  entry: \<^verbatim>\<open>meta_path\<close>, \<^verbatim>\<open>path\<close>, \<^verbatim>\<open>path_hooks\<close> and \<^verbatim>\<open>path_importer_cache\<close>;
  \<^verbatim>\<open>pycache_prefix\<close>; \<^verbatim>\<open>dont_write_bytecode\<close>. The body and the wrapped function are
  arbitrary: each may assign these attributes itself, and may complete or raise.
\<close>

theorem sys_attributes_restored:
  "sys_meta_path (fst (import_state kw b s)) = sys_meta_path s \<and>
   sys_path (fst (import_state kw b s)) = sys_path s \<and>
   sys_path_hooks (fst (import_state kw b s)) = sys_path_hooks s \<and>
   sys_path_importer_cache (fst (import_state kw b s)) = sys_path_importer_cache s \<and>
   sys_pycache_prefix (fst (temporary_pycache_prefix prefix b s)) = sys_pycache_prefix s \<and>
   sys_dont_write_bytecode (fst (writes_bytecode_files s0 f args s)) = sys_dont_write_bytecode s"
proof -
  obtain s2 where "fst (import_state kw b s)
     = s2\<lparr>sys_meta_path := sys_meta_path s, sys_path := sys_path s,
          sys_path_hooks := sys_path_hooks s,
          sys_path_importer_cache := sys_path_importer_cache s\<rparr>"
    using import_state_fst by blast
  then have a: "sys_meta_path (fst (import_state kw b s)) = sys_meta_path s"
    and b: "sys_path (fst (import_state kw b s)) = sys_path s"
    and c: "sys_path_hooks (fst (import_state kw b s)) = sys_path_hooks s"
    and d: "sys_path_importer_cache (fst (import_state kw b s)) = sys_path_importer_cache s"
    by simp_all
  have e: "sys_pycache_prefix (fst (temporary_pycache_prefix prefix b s)) = sys_pycache_prefix s"
    by (simp add: temporary_pycache_prefix_def Let_def split: prod.splits)
  have f: "sys_dont_write_bytecode (fst (writes_bytecode_files s0 f args s)) = sys_dont_write_bytecode s"
    by (simp add: writes_bytecode_files_def wrapper_def Let_def split: prod.splits)
  from a b c d e f show ?thesis by simp
qed

lemma import_state_loop_state_restored:
  "import_state_exit (fst (snd (import_state_loop import_state_defaults kw [] s)))
     (snd (snd (import_state_loop import_state_defaults kw [] s))) = s"
proof -
  let ?s1 = "snd (snd (import_state_loop import_state_defaults kw [] s))"
  have fr: "sys_pycache_prefix ?s1 = sys_pycache_prefix s"
    "sys_dont_write_bytecode ?s1 = sys_dont_write_bytecode s"
    "sys_modules ?s1 = sys_modules s"
    using import_state_loop_frame [of import_state_defaults kw "[]" s] by simp_all
  show ?thesis
    unfolding import_state_restores using fr
    by (cases s; cases ?s1) simp
qed

text \<open>
  Claim C10. Called with a keyword argument other than \<^verbatim>\<open>meta_path\<close>, \<^verbatim>\<open>path\<close>,
  \<^verbatim>\<open>path_hooks\<close> and \<^verbatim>\<open>path_importer_cache\<close>, \<^verbatim>\<open>import_state\<close> raises
  \<^verbatim>\<open>ValueError\<close>, naming the keys it does not know, without running the body, and the
  state of \<^verbatim>\<open>sys\<close> when the exception leaves is the state at entry.
\<close>

theorem import_state_unrecognized:
  assumes "k \<in> fst ` set kw"
    and "k \<notin> attr_name ` {Meta_path, Path, Path_hooks, Path_importer_cache}"
  shows "import_state kw b s =
           (s, Some (Exc ValueError (MsgKeys ''unrecognized arguments: {0}''
              (map fst (filter (\<lambda>p. fst p \<notin> attr_name ` {Meta_path, Path, Path_hooks, Path_importer_cache}) kw)))))"
proof -
  let ?valid = "attr_name ` {Meta_path, Path, Path_hooks, Path_importer_cache}"
  obtain kw' orig s1 where l: "import_state_loop import_state_defaults kw [] s = (kw', orig, s1)"
    by (cases "import_state_loop import_state_defaults kw [] s")
  have v: "attr_name ` fst ` set import_state_defaults = ?valid"
    by (simp add: import_state_defaults_def)
  have kw': "kw' = filter (\<lambda>p. fst p \<notin> ?valid) kw"
    using import_state_loop_kwargs [of import_state_defaults kw "[]" s] by (simp only: l v fst_conv)
  from assms obtain p where "p \<in> set kw" "fst p \<notin> ?valid" by auto
  then have "p \<in> set kw'" by (simp add: kw')
  then have ne: "length kw' \<noteq> 0" by auto
  have "import_state_exit orig s1 = s"
    using import_state_loop_state_restored [of kw s] by (simp add: l)
  with ne show ?thesis
    by (simp add: import_state_def import_state_enter_def l kw')
qed

theorem import_state_unrecognized_witness:
  "''modules'' \<in> fst ` set [(''path'', PyList []), (''modules'', PyDict [])] \<and>
   ''modules'' \<notin> attr_name ` {Meta_path, Path, Path_hooks, Path_importer_cache} \<and>
   import_state [(''path'', PyList []), (''modules'', PyDict [])] pass_body example_sys =
     (example_sys, Some (Exc ValueError (MsgKeys ''unrecognized arguments: {0}'' [''modules''])))"
proof -
  have a: "''modules'' \<in> fst ` set [(''path'', PyList []), (''modules'', PyDict [])]" by simp
  have b: "''modules'' \<notin> attr_name ` {Meta_path, Path, Path_hooks, Path_importer_cache}" by simp
  show ?thesis
    using a b import_state_unrecognized [OF a b, of pass_body example_sys] by simp
qed

section \<open>The importer mocks\<close>

lemma ImporterMock_init_loop_dom:
  "dom (modules (ImporterMock_init_loop mc names self)) = dom (modules self) \<union> import_name_of ` set names"
  by (induction names arbitrary: self) auto

lemma ImporterMock_init_dom:
  "dom (modules (ImporterMock_init i names mc)) = import_name_of ` set names"
  by (simp add: ImporterMock_init_def ImporterMock_init_loop_dom)

text \<open>
  Claim C3. For a mock importer built from \<open>names\<close> and a \<open>fullname\<close> that is not
  the import name of any of them, so not a key of its \<^verbatim>\<open>modules\<close>:
  \<^verbatim>\<open>mock_modules.find_module\<close> returns \<^verbatim>\<open>None\<close> and \<^verbatim>\<open>load_module\<close> raises
  \<^verbatim>\<open>ImportError\<close>, leaving the state alone; \<^verbatim>\<open>mock_spec.find_spec\<close> returns \<^verbatim>\<open>None\<close>
  and \<^verbatim>\<open>create_module\<close> raises \<^verbatim>\<open>ImportError\<close> for a spec of that name. A hook made
  by \<^verbatim>\<open>mock_path_hook\<close> raises \<^verbatim>\<open>ImportError\<close> for an entry that is not among its
  entries and returns its importer for one that is.
\<close>

theorem mock_unknown_name:
  "(fullname \<notin> import_name_of ` set names \<longrightarrow>
      find_module (ImporterMock_init i names mc) fullname p = None \<and>
      load_module (ImporterMock_init i names mc) fullname s = (s, Inl (Exc ImportError NoArgs)) \<and>
      find_spec sffl (ImporterMock_init i names mc) fullname p parent = Inr None \<and>
      create_module (ImporterMock_init i names mc) (spec\<lparr>spec_name := fullname\<rparr>)
        = Inl (Exc ImportError NoArgs)) \<and>
   (entry \<notin> set entries \<longrightarrow> mock_path_hook entries imp entry = Inl (Exc ImportError NoArgs)) \<and>
   (entry \<in> set entries \<longrightarrow> mock_path_hook entries imp entry = Inr imp)"
proof (intro conjI impI)
  assume "fullname \<notin> import_name_of ` set names"
  then have "fullname \<notin> dom (modules (ImporterMock_init i names mc))"
    by (simp only: ImporterMock_init_dom not_False_eq_True)
  then have n: "modules (ImporterMock_init i names mc) fullname = None"
    by blast
  from n show "find_module (ImporterMock_init i names mc) fullname p = None"
    by (simp add: find_module_def)
  from n show "load_module (ImporterMock_init i names mc) fullname s
      = (s, Inl (Exc ImportError NoArgs))"
    by (simp add: load_module_def)
  from n show "find_spec sffl (ImporterMock_init i names mc) fullname p parent = Inr None"
    by (simp add: find_spec_def)
  from n show "create_module (ImporterMock_init i names mc) (spec\<lparr>spec_name := fullname\<rparr>)
      = Inl (Exc ImportError NoArgs)"
    by (simp add: create_module_def)
next
  assume "entry \<notin> set entries"
  then show "mock_path_hook entries imp entry = Inl (Exc ImportError NoArgs)"
    by (simp add: mock_path_hook_def)
next
  assume "entry \<in> set entries"
  then show "mock_path_hook entries imp entry = Inr imp"
    by (simp add: mock_path_hook_def)
qed

lemma import_name_of_examples:
  "import_name_of ''pkg.__init__'' = ''pkg''" "import_name_of ''pkg.mod'' = ''pkg.mod''"
  "import_name_of ''bar'' = ''bar''"
  by (simp_all add: import_name_of_def endswith_def)

theorem mock_unknown_name_witness:
  "''bar'' \<notin> import_name_of ` set [''pkg.__init__'', ''pkg.mod''] \<and>
   ''/other'' \<notin> set [''/here'', ''/there''] \<and> ''/there'' \<in> set [''/here'', ''/there''] \<and>
   ''/anywhere'' \<notin> set ([] :: string list) \<and>
   find_module (ImporterMock_init 0 [''pkg.__init__'', ''pkg.mod''] Map.empty) ''bar'' PyNone = None \<and>
   load_module (ImporterMock_init 0 [''pkg.__init__'', ''pkg.mod''] Map.empty) ''bar'' example_sys
     = (example_sys, Inl (Exc ImportError NoArgs)) \<and>
   find_spec example_sffl (ImporterMock_init 0 [''pkg.__init__'', ''pkg.mod''] Map.empty) ''bar''
     PyNone PyNone = Inr None \<and>
   create_module (ImporterMock_init 0 [''pkg.__init__'', ''pkg.mod''] Map.empty)
     (example_spec\<lparr>spec_name := ''bar''\<rparr>) = Inl (Exc ImportError NoArgs) \<and>
   mock_path_hook [''/here'', ''/there''] (0::nat) ''/other'' = Inl (Exc ImportError NoArgs) \<and>
   mock_path_hook [''/here'', ''/there''] (0::nat) ''/there'' = Inr 0 \<and>
   mock_path_hook [] (0::nat) ''/anywhere'' = Inl (Exc ImportError NoArgs)"
proof -
  have a: "''bar'' \<notin> import_name_of ` set [''pkg.__init__'', ''pkg.mod'']"
    by (simp add: import_name_of_examples)
  have b: "''/other'' \<notin> set [''/here'', ''/there'']" by simp
  have c: "''/there'' \<in> set [''/here'', ''/there'']" by simp
  have d: "''/anywhere'' \<notin> set ([] :: string list)" by simp
  note T1 = mock_unknown_name [of "''bar''" "[''pkg.__init__'', ''pkg.mod'']" 0 Map.empty PyNone
      example_sys example_sffl PyNone example_spec "''/other''" "[''/here'', ''/there'']" "0::nat"]
  note T2 = mock_unknown_name [of "''bar''" "[''pkg.__init__'', ''pkg.mod'']" 0 Map.empty PyNone
      example_sys example_sffl PyNone example_spec "''/there''" "[''/here'', ''/there'']" "0::nat"]
  note T3 = mock_unknown_name [of "''bar''" "[''pkg.__init__'', ''pkg.mod'']" 0 Map.empty PyNone
      example_sys example_sffl PyNone example_spec "''/anywhere''" "[]" "0::nat"]
  note m = T1 [THEN conjunct1, rule_format, OF a]
  note h1 = T1 [THEN conjunct2, THEN conjunct1, rule_format, OF b]
  note h2 = T2 [THEN conjunct2, THEN conjunct2, rule_format, OF c]
  note h3 = T3 [THEN conjunct2, THEN conjunct1, rule_format, OF d]
  from a b c d m h1 h2 h3 show ?thesis by blast
qed

text \<open>
  Claim C4. When \<open>fullname\<close> is a key of the importer's \<^verbatim>\<open>modules\<close>, bound to \<open>m\<close>,
  and either no code is registered for it or the registered code completes without
  raising, \<^verbatim>\<open>load_module\<close> returns \<open>m\<close>; the code, if any, runs in the state in which
  \<^verbatim>\<open>sys.modules[fullname]\<close> is \<open>m\<close>, and the state it leaves is the state after the
  call. Without code that is the state at entry with \<open>m\<close> stored.
\<close>

theorem load_module_stores_and_returns:
  assumes "modules self fullname = Some m"
    and "module_code self fullname = None \<or>
         (\<exists>code. module_code self fullname = Some code \<and>
            snd (code (s\<lparr>sys_modules := (sys_modules s)(fullname \<mapsto> m)\<rparr>)) = None)"
  shows "snd (load_module self fullname s) = Inr m \<and>
         fst (load_module self fullname s) =
           (case module_code self fullname of
              None \<Rightarrow> s\<lparr>sys_modules := (sys_modules s)(fullname \<mapsto> m)\<rparr>
            | Some code \<Rightarrow> fst (code (s\<lparr>sys_modules := (sys_modules s)(fullname \<mapsto> m)\<rparr>)))"
  using assms
  by (auto simp: load_module_def Let_def split: option.splits prod.splits)

lemma foo_importer_simps:
  "modules (foo_importer code) ''foo'' = Some (new_module 0 ''foo'')"
  "module_code (foo_importer code) ''foo'' = Some code"
  by (simp_all add: foo_importer_def ImporterMock_init_def import_name_of_def endswith_def)

theorem load_module_stores_and_returns_witness:
  "modules (foo_importer pass_body) ''foo'' = Some (new_module 0 ''foo'') \<and>
   module_code (foo_importer pass_body) ''foo'' = Some pass_body \<and>
   snd (pass_body (empty_sys\<lparr>sys_modules := (sys_modules empty_sys)(''foo'' \<mapsto> new_module 0 ''foo'')\<rparr>)) = None \<and>
   snd (load_module (foo_importer pass_body) ''foo'' empty_sys) = Inr (new_module 0 ''foo'') \<and>
   sys_modules (fst (load_module (foo_importer pass_body) ''foo'' empty_sys)) ''foo''
     = Some (new_module 0 ''foo'')"
proof -
  have a: "modules (foo_importer pass_body) ''foo'' = Some (new_module 0 ''foo'')"
    by (rule foo_importer_simps)
  have c: "module_code (foo_importer pass_body) ''foo'' = Some pass_body"
    by (rule foo_importer_simps)
  have d: "snd (pass_body (empty_sys\<lparr>sys_modules := (sys_modules empty_sys)(''foo'' \<mapsto> new_module 0 ''foo'')\<rparr>)) = None"
    by (simp add: pass_body_def)
  have b: "module_code (foo_importer pass_body) ''foo'' = None \<or>
         (\<exists>code. module_code (foo_importer pass_body) ''foo'' = Some code \<and>
            snd (code (empty_sys\<lparr>sys_modules := (sys_modules empty_sys)(''foo'' \<mapsto> new_module 0 ''foo'')\<rparr>)) = None)"
    using c d by blast
  show ?thesis
    using a c d load_module_stores_and_returns [OF a b]
    by (simp add: pass_body_def)
qed

text \<open>
  Claim C8, as stated, fails: the handler is \<^verbatim>\<open>except Exception\<close>, so when the code
  raises \<^verbatim>\<open>SystemExit\<close> the entry that \<^verbatim>\<open>load_module\<close> stored is still in
  \<^verbatim>\<open>sys.modules\<close> when the exception leaves.
\<close>

theorem load_module_keeps_entry_on_SystemExit:
  "snd (load_module (foo_importer (raise_body (Exc SystemExit NoArgs))) ''foo'' empty_sys)
     = Inl (Exc SystemExit NoArgs) \<and>
   sys_modules (fst (load_module (foo_importer (raise_body (Exc SystemExit NoArgs))) ''foo'' empty_sys))
     ''foo'' = Some (new_module 0 ''foo'')"
  by (simp add: load_module_def foo_importer_simps raise_body_def Let_def isinstance_def
      issubclass_def)

text \<open>
  Claim C8, amended. When the registered code raises an instance of \<^verbatim>\<open>Exception\<close>,
  \<^verbatim>\<open>sys.modules\<close> has no entry for \<open>fullname\<close> when \<^verbatim>\<open>load_module\<close> is left, its
  other entries are as the code left them, and the exception that leaves is the one the
  code raised (or \<^verbatim>\<open>KeyError\<close> from the \<^verbatim>\<open>del\<close>, if the code had removed the
  entry itself). An exception that is no instance of \<^verbatim>\<open>Exception\<close> leaves with the
  state as the code left it.
\<close>

theorem load_module_failure:
  assumes "modules self fullname = Some m"
    and "module_code self fullname = Some code"
    and "code (s\<lparr>sys_modules := (sys_modules s)(fullname \<mapsto> m)\<rparr>) = (s2, Some e)"
  shows "if isinstance e Exception
         then sys_modules (fst (load_module self fullname s)) fullname = None \<and>
              (\<forall>n. n \<noteq> fullname \<longrightarrow>
                 sys_modules (fst (load_module self fullname s)) n = sys_modules s2 n) \<and>
              snd (load_module self fullname s) =
                (case sys_modules s2 fullname of
                   None \<Rightarrow> Inl (Exc KeyError (Msg fullname))
                 | Some m' \<Rightarrow> Inl e)
         else load_module self fullname s = (s2, Inl e)"
  using assms
  by (auto simp: load_module_def Let_def split: option.splits)

theorem load_module_failure_witness:
  "modules (foo_importer (raise_body (Exc ValueError (Msg ''bad'')))) ''foo''
     = Some (new_module 0 ''foo'') \<and>
   module_code (foo_importer (raise_body (Exc ValueError (Msg ''bad'')))) ''foo''
     = Some (raise_body (Exc ValueError (Msg ''bad''))) \<and>
   isinstance (Exc ValueError (Msg ''bad'')) Exception \<and>
   sys_modules (fst (load_module (foo_importer (raise_body (Exc ValueError (Msg ''bad''))))
     ''foo'' empty_sys)) ''foo'' = None \<and>
   snd (load_module (foo_importer (raise_body (Exc ValueError (Msg ''bad'')))) ''foo'' empty_sys)
     = Inl (Exc ValueError (Msg ''bad''))"
proof -
  let ?e = "Exc ValueError (Msg ''bad'')"
  let ?s1 = "empty_sys\<lparr>sys_modules := (sys_modules empty_sys)(''foo'' \<mapsto> new_module 0 ''foo'')\<rparr>"
  have a: "modules (foo_importer (raise_body ?e)) ''foo'' = Some (new_module 0 ''foo'')"
    by (rule foo_importer_simps)
  have b: "module_code (foo_importer (raise_body ?e)) ''foo'' = Some (raise_body ?e)"
    by (rule foo_importer_simps)
  have c: "raise_body ?e ?s1 = (?s1, Some ?e)"
    by (simp add: raise_body_def)
  have d: "isinstance ?e Exception"
    by (simp add: isinstance_def issubclass_def)
  show ?thesis
    using a b d load_module_failure [OF a b c]
    by simp
qed

text \<open>
  Claim C9. \<^verbatim>\<open>mock_spec.exec_module\<close> never raises an instance of \<^verbatim>\<open>KeyError\<close>; for
  a module whose spec names no registered code it changes nothing and returns; when the
  registered code raises, an instance of \<^verbatim>\<open>KeyError\<close> is suppressed and any other
  exception leaves, in both cases in the state the code left.
\<close>

theorem exec_module_KeyError:
  "(\<forall>e. snd (exec_module self m s) = Some e \<longrightarrow> \<not> isinstance e KeyError) \<and>
   (\<forall>spec. mod_spec m = Some spec \<and> module_code self (spec_name spec) = None \<longrightarrow>
      exec_module self m s = (s, None)) \<and>
   (\<forall>spec code s2 e. mod_spec m = Some spec \<and> module_code self (spec_name spec) = Some code \<and>
      code s = (s2, Some e) \<longrightarrow>
      exec_module self m s = (s2, if isinstance e KeyError then None else Some e))"
proof (intro conjI allI impI)
  fix e
  assume raised: "snd (exec_module self m s) = Some e"
  show "\<not> isinstance e KeyError"
  proof (cases "mod_spec m")
    case None
    with raised have "e = Exc AttributeError NoArgs" by (simp add: exec_module_def)
    then show ?thesis by (simp add: isinstance_def issubclass_def)
  next
    case (Some spec)
    with raised show ?thesis
      by (auto simp: exec_module_def split: option.splits prod.splits if_splits)
  qed
next
  fix spec
  assume "mod_spec m = Some spec \<and> module_code self (spec_name spec) = None"
  then show "exec_module self m s = (s, None)" by (simp add: exec_module_def)
next
  fix spec code s2 e
  assume "mod_spec m = Some spec \<and> module_code self (spec_name spec) = Some code \<and>
      code s = (s2, Some e)"
  then show "exec_module self m s = (s2, if isinstance e KeyError then None else Some e)"
    by (simp add: exec_module_def)
qed

theorem exec_module_KeyError_witness:
  "mod_spec bar_with_spec = Some (example_spec\<lparr>spec_name := ''bar''\<rparr>) \<and>
   module_code (foo_importer pass_body) ''bar'' = None \<and>
   exec_module (foo_importer pass_body) bar_with_spec empty_sys = (empty_sys, None) \<and>
   mod_spec foo_with_spec = Some example_spec \<and>
   module_code (foo_importer (raise_body (Exc KeyError (Msg ''k'')))) (spec_name example_spec)
     = Some (raise_body (Exc KeyError (Msg ''k''))) \<and>
   raise_body (Exc KeyError (Msg ''k'')) empty_sys = (empty_sys, Some (Exc KeyError (Msg ''k''))) \<and>
   exec_module (foo_importer (raise_body (Exc KeyError (Msg ''k'')))) foo_with_spec empty_sys
     = (empty_sys, None) \<and>
   exec_module (foo_importer (raise_body (Exc ValueError NoArgs))) foo_with_spec empty_sys
     = (empty_sys, Some (Exc ValueError NoArgs)) \<and>
   \<not> isinstance (Exc ValueError NoArgs) KeyError"
proof -
  let ?k = "Exc KeyError (Msg ''k'')"
  let ?v = "Exc ValueError NoArgs"
  let ?sb = "example_spec\<lparr>spec_name := ''bar''\<rparr>"
  have n: "spec_name example_spec = ''foo''" by (simp add: example_spec_def)
  have a: "mod_spec foo_with_spec = Some example_spec" by (simp add: foo_with_spec_def)
  have a': "mod_spec bar_with_spec = Some ?sb" by (simp add: bar_with_spec_def)
  have b: "module_code (foo_importer pass_body) ''bar'' = None"
    by (simp add: foo_importer_def ImporterMock_init_def import_name_of_def endswith_def)
  then have b': "module_code (foo_importer pass_body) (spec_name ?sb) = None" by simp
  have c: "module_code (foo_importer (raise_body ?k)) (spec_name example_spec) = Some (raise_body ?k)"
    by (simp add: n foo_importer_simps)
  have d: "raise_body ?k empty_sys = (empty_sys, Some ?k)" by (simp add: raise_body_def)
  have e: "isinstance ?k KeyError" by (simp add: isinstance_def issubclass_def)
  have c': "module_code (foo_importer (raise_body ?v)) (spec_name example_spec) = Some (raise_body ?v)"
    by (simp add: n foo_importer_simps)
  have d': "raise_body ?v empty_sys = (empty_sys, Some ?v)" by (simp add: raise_body_def)
  have e': "\<not> isinstance ?v KeyError" by (simp add: isinstance_def issubclass_def)
  have "mod_spec bar_with_spec = Some ?sb \<and> module_code (foo_importer pass_body) (spec_name ?sb) = None
      \<longrightarrow> exec_module (foo_importer pass_body) bar_with_spec empty_sys = (empty_sys, None)"
    using exec_module_KeyError [of "foo_importer pass_body" bar_with_spec empty_sys] by blast
  with a' b' have 1: "exec_module (foo_importer pass_body) bar_with_spec empty_sys = (empty_sys, None)"
    by blast
  have "mod_spec foo_with_spec = Some example_spec \<and>
      module_code (foo_importer (raise_body ?k)) (spec_name example_spec) = Some (raise_body ?k) \<and>
      raise_body ?k empty_sys = (empty_sys, Some ?k) \<longrightarrow>
      exec_module (foo_importer (raise_body ?k)) foo_with_spec empty_sys =
        (empty_sys, if isinstance ?k KeyError then None else Some ?k)"
    using exec_module_KeyError [of "foo_importer (raise_body ?k)" foo_with_spec empty_sys] by blast
  with a c d e have 2: "exec_module (foo_importer (raise_body ?k)) foo_with_spec empty_sys = (empty_sys, None)"
    by simp
  have "mod_spec foo_with_spec = Some example_spec \<and>
      module_code (foo_importer (raise_body ?v)) (spec_name example_spec) = Some (raise_body ?v) \<and>
      raise_body ?v empty_sys = (empty_sys, Some ?v) \<longrightarrow>
      exec_module (foo_importer (raise_body ?v)) foo_with_spec empty_sys =
        (empty_sys, if isinstance ?v KeyError then None else Some ?v)"
    using exec_module_KeyError [of "foo_importer (raise_body ?v)" foo_with_spec empty_sys] by blast
  with a c' d' e' have 3: "exec_module (foo_importer (raise_body ?v)) foo_with_spec empty_sys = (empty_sys, Some ?v)"
    by simp
  from a' b 1 a c d 2 3 e' show ?thesis by blast
qed

section \<open>The resource reader of \<^verbatim>\<open>create_package\<close>\<close>

lemma split_not_Nil: "split c s \<noteq> []"
  by (induction s) (auto split: list.splits)

lemma split_without_separator: "c \<notin> set s \<Longrightarrow> split c s = [s]"
  by (induction s) auto

lemma split_with_separator: "c \<in> set s \<Longrightarrow> 2 \<le> length (split c s)"
proof (induction s)
  case Nil
  then show ?case by simp
next
  case (Cons x xs)
  show ?case
  proof (cases "x = c")
    case True
    have "1 \<le> length (split c xs)"
      using split_not_Nil [of c xs] by (cases "split c xs") simp_all
    with True show ?thesis by simp
  next
    case False
    with Cons.prems have "c \<in> set xs" by simp
    then have "2 \<le> length (split c xs)" by (rule Cons.IH)
    with False show ?thesis by (cases "split c xs") simp_all
  qed
qed

lemma single_component:
  "(length (split c entry) = 1 \<and> hd (split c entry) = p) = (c \<notin> set entry \<and> entry = p)"
proof (cases "c \<in> set entry")
  case True
  then show ?thesis using split_with_separator [of c entry] by simp
next
  case False
  then show ?thesis by (simp add: split_without_separator)
qed

lemma is_resource_loop_iff:
  "is_resource_loop cont p = (p \<in> set cont \<and> CHR ''/'' \<notin> set p)"
proof (induction cont)
  case Nil
  then show ?case by simp
next
  case (Cons entry rest)
  have "is_resource_loop (entry # rest) p =
          ((CHR ''/'' \<notin> set entry \<and> entry = p) \<or> is_resource_loop rest p)"
    by (simp only: is_resource_loop.simps Let_def single_component if_bool_eq_disj) blast
  with Cons.IH show ?case by auto
qed

lemma gen_nexts_Running:
  "g_pc g = Running \<Longrightarrow>
   gen_nexts (Suc (length (g_rest g))) g = map Yield (g_rest g) @ [StopIteration]"
proof (induction "g_rest g" arbitrary: g)
  case Nil
  then show ?case by (simp add: gen_next_def contents_loop_def)
next
  case (Cons entry rest)
  let ?g' = "g\<lparr>g_pc := Running, g_rest := rest\<rparr>"
  have n: "gen_next g = (?g', Yield entry)"
    using Cons.prems Cons.hyps(2) [symmetric] by (simp add: gen_next_def contents_loop_def)
  have "gen_nexts (Suc (length (g_rest ?g'))) ?g' = map Yield (g_rest ?g') @ [StopIteration]"
    by (rule Cons.hyps(1)) simp_all
  then show ?case
    using n Cons.hyps(2) [symmetric] by simp
qed

lemma gen_nexts_plain:
  assumes "\<not> is_Exception_instance path"
  shows "gen_nexts (Suc (length cont)) \<lparr>g_pc = Unstarted, g_path = path, g_rest = cont\<rparr>
           = map Yield cont @ [StopIteration]"
proof -
  let ?g = "\<lparr>g_pc = Unstarted, g_path = path, g_rest = cont\<rparr>"
  have first: "gen_next ?g = contents_loop ?g"
    using assms by (cases "path") (simp_all add: gen_next_def)
  show ?thesis
  proof (cases cont)
    case Nil
    then show ?thesis using first by (simp add: contents_loop_def gen_next_def)
  next
    case (Cons entry rest)
    let ?g' = "\<lparr>g_pc = Running, g_path = path, g_rest = rest\<rparr>"
    have "gen_next ?g = (?g', Yield entry)"
      using first Cons by (simp add: contents_loop_def)
    moreover have "gen_nexts (Suc (length (g_rest ?g'))) ?g' = map Yield (g_rest ?g') @ [StopIteration]"
      by (rule gen_nexts_Running) simp
    ultimately show ?thesis using Cons by simp
  qed
qed

text \<open>
  Claim C6, as stated, fails for \<^verbatim>\<open>contents\<close>: with \<^verbatim>\<open>path\<close> an instance of
  \<^verbatim>\<open>Exception\<close> the call does not raise; it returns a generator that has not started.
\<close>

theorem contents_call_does_not_raise:
  "is_Exception_instance (PyExc (Exc OSError NoArgs)) \<and>
   contents (pkg_loader (create_package PyNone (PyExc (Exc OSError NoArgs)) True [''a'']))
     = Inr \<lparr>g_pc = Unstarted, g_path = PyExc (Exc OSError NoArgs), g_rest = [''a'']\<rparr>"
  by (simp add: contents_def create_package_def isinstance_def issubclass_def)

text \<open>
  Claim C6, amended. For the reader of \<^verbatim>\<open>create_package(file, path, is_package, contents)\<close>:
  \<^verbatim>\<open>open_resource\<close> records the requested path and raises \<^verbatim>\<open>file\<close> when that is an
  instance of \<^verbatim>\<open>Exception\<close>, and returns \<^verbatim>\<open>file\<close> otherwise. \<^verbatim>\<open>resource_path\<close> and
  \<^verbatim>\<open>is_resource\<close> record the path and raise \<^verbatim>\<open>path\<close> when that is an instance of
  \<^verbatim>\<open>Exception\<close>; otherwise \<^verbatim>\<open>resource_path\<close> returns \<^verbatim>\<open>path\<close> and
  \<^verbatim>\<open>is_resource\<close> returns whether the queried name is an entry of \<^verbatim>\<open>contents\<close>
  without a slash. \<^verbatim>\<open>contents\<close> always returns a generator: its first \<^verbatim>\<open>next\<close>
  raises \<^verbatim>\<open>path\<close> when that is an instance of \<^verbatim>\<open>Exception\<close>, and otherwise it
  yields the entries in order and then stops.
\<close>

theorem reader_protocol:
  "(let r = pkg_loader (create_package file path is_package cont);
        r' = r\<lparr>r_recorded := Some p\<rparr>;
        g = \<lparr>g_pc = Unstarted, g_path = path, g_rest = cont\<rparr>
    in (is_Exception_instance file \<longrightarrow>
          (\<exists>e. file = PyExc e \<and> open_resource r p = (r', Inl e))) \<and>
       (\<not> is_Exception_instance file \<longrightarrow> open_resource r p = (r', Inr file)) \<and>
       contents r = Inr g \<and>
       (is_Exception_instance path \<longrightarrow>
          (\<exists>e. path = PyExc e \<and> resource_path r p = (r', Inl e) \<and>
             is_resource r p = (r', Inl e) \<and>
             gen_next g = (g\<lparr>g_pc := Finished\<rparr>, Raise e))) \<and>
       (\<not> is_Exception_instance path \<longrightarrow>
          resource_path r p = (r', Inr path) \<and>
          is_resource r p = (r', Inr (p \<in> set cont \<and> CHR ''/'' \<notin> set p)) \<and>
          gen_nexts (Suc (length cont)) g = map Yield cont @ [StopIteration]))"
proof -
  let ?r = "pkg_loader (create_package file path is_package cont)"
  let ?r' = "?r\<lparr>r_recorded := Some p\<rparr>"
  let ?g = "\<lparr>g_pc = Unstarted, g_path = path, g_rest = cont\<rparr>"
  have f1: "is_Exception_instance file \<Longrightarrow> \<exists>e. file = PyExc e \<and> open_resource ?r p = (?r', Inl e)"
    by (cases "file") (simp_all add: open_resource_def create_package_def)
  have f2: "\<not> is_Exception_instance file \<Longrightarrow> open_resource ?r p = (?r', Inr file)"
    by (cases "file") (simp_all add: open_resource_def create_package_def)
  have c: "contents ?r = Inr ?g"
    by (simp add: contents_def create_package_def)
  have p1: "is_Exception_instance path \<Longrightarrow>
      \<exists>e. path = PyExc e \<and> resource_path ?r p = (?r', Inl e) \<and> is_resource ?r p = (?r', Inl e) \<and>
          gen_next ?g = (?g\<lparr>g_pc := Finished\<rparr>, Raise e)"
    by (cases "path")
      (simp_all add: resource_path_def is_resource_def gen_next_def create_package_def)
  have p2: "\<not> is_Exception_instance path \<Longrightarrow> resource_path ?r p = (?r', Inr path)"
    by (cases "path") (simp_all add: resource_path_def create_package_def)
  have p3: "\<not> is_Exception_instance path \<Longrightarrow>
      is_resource ?r p = (?r', Inr (p \<in> set cont \<and> CHR ''/'' \<notin> set p))"
    by (cases "path") (simp_all add: is_resource_def create_package_def is_resource_loop_iff)
  have p4: "\<not> is_Exception_instance path \<Longrightarrow>
      gen_nexts (Suc (length cont)) ?g = map Yield cont @ [StopIteration]"
    by (rule gen_nexts_plain)
  from f1 f2 c p1 p2 p3 p4 show ?thesis
    unfolding Let_def by blast
qed

theorem reader_protocol_witness:
  "is_Exception_instance (PyExc (Exc OSError NoArgs)) \<and>
   \<not> is_Exception_instance (PyStr ''data'') \<and>
   \<not> is_Exception_instance (PyStr ''/pkg'') \<and>
   snd (open_resource (pkg_loader failing_package) ''a'') = Inl (Exc OSError NoArgs) \<and>
   snd (resource_path (pkg_loader failing_package) ''a'') = Inl (Exc OSError NoArgs) \<and>
   snd (is_resource (pkg_loader failing_package) ''a'') = Inl (Exc OSError NoArgs) \<and>
   snd (gen_next \<lparr>g_pc = Unstarted, g_path = PyExc (Exc OSError NoArgs), g_rest = [''a'', ''b/c'']\<rparr>)
     = Raise (Exc OSError NoArgs) \<and>
   snd (open_resource (pkg_loader data_package) ''a'') = Inr (PyStr ''data'') \<and>
   r_recorded (fst (open_resource (pkg_loader data_package) ''a'')) = Some ''a'' \<and>
   snd (resource_path (pkg_loader data_package) ''a'') = Inr (PyStr ''/pkg'') \<and>
   snd (is_resource (pkg_loader data_package) ''a'') = Inr True \<and>
   snd (is_resource (pkg_loader data_package) ''b/c'') = Inr False \<and>
   gen_nexts 3 \<lparr>g_pc = Unstarted, g_path = PyStr ''/pkg'', g_rest = [''a'', ''b/c'']\<rparr>
     = [Yield ''a'', Yield ''b/c'', StopIteration]"
proof -
  let ?e = "Exc OSError NoArgs"
  let ?c = "[''a'', ''b/c'']"
  have a: "is_Exception_instance (PyExc ?e)" by (simp add: isinstance_def issubclass_def)
  have b: "\<not> is_Exception_instance (PyStr ''data'')" by simp
  have c: "\<not> is_Exception_instance (PyStr ''/pkg'')" by simp
  note F = reader_protocol [of "PyExc ?e" "PyExc ?e" True ?c "''a''", unfolded Let_def,
      folded failing_package_def]
  note D = reader_protocol [of "PyStr ''data''" "PyStr ''/pkg''" True ?c "''a''", unfolded Let_def,
      folded data_package_def]
  note D' = reader_protocol [of "PyStr ''data''" "PyStr ''/pkg''" True ?c "''b/c''", unfolded Let_def,
      folded data_package_def]
  from F a have f1: "snd (open_resource (pkg_loader failing_package) ''a'') = Inl ?e"
    by auto
  from F a have f2: "snd (resource_path (pkg_loader failing_package) ''a'') = Inl ?e"
    by auto
  from F a have f3: "snd (is_resource (pkg_loader failing_package) ''a'') = Inl ?e"
    by auto
  from F a have f4: "snd (gen_next \<lparr>g_pc = Unstarted, g_path = PyExc ?e, g_rest = ?c\<rparr>) = Raise ?e"
    by auto
  from D b have d1: "snd (open_resource (pkg_loader data_package) ''a'') = Inr (PyStr ''data'')"
    by simp
  from D b have d2: "r_recorded (fst (open_resource (pkg_loader data_package) ''a'')) = Some ''a''"
    by simp
  from D c have d3: "snd (resource_path (pkg_loader data_package) ''a'') = Inr (PyStr ''/pkg'')"
    by simp
  from D c have d4: "snd (is_resource (pkg_loader data_package) ''a'') = Inr True"
    by simp
  from D' c have d5: "snd (is_resource (pkg_loader data_package) ''b/c'') = Inr False"
    by simp
  from D c have "gen_nexts (Suc (length ?c)) \<lparr>g_pc = Unstarted, g_path = PyStr ''/pkg'', g_rest = ?c\<rparr>
      = map Yield ?c @ [StopIteration]"
    by blast
  then have d6: "gen_nexts 3 \<lparr>g_pc = Unstarted, g_path = PyStr ''/pkg'', g_rest = ?c\<rparr>
      = [Yield ''a'', Yield ''b/c'', StopIteration]"
    by (simp add: numeral_3_eq_3)
  from a b c f1 f2 f3 f4 d1 d2 d3 d4 d5 d6 show ?thesis by blast
qed

section \<open>The module cache under \<^verbatim>\<open>uncache\<close> and \<^verbatim>\<open>create_modules\<close>\<close>

lemma del_module_modules: "sys_modules (del_module n s) = (sys_modules s)(n := None)"
  by (auto simp: del_module_def split: option.splits)

lemma uncache_exit_modules: "sys_modules (uncache_exit names s) = sys_modules s |` (- set names)"
proof (induction names arbitrary: s)
  case Nil
  then show ?case by simp
next
  case (Cons n names)
  show ?case
    by (rule ext) (simp add: Cons.IH del_module_modules restrict_map_def)
qed

lemma uncache_exit_frame:
  "sys_meta_path (uncache_exit names s) = sys_meta_path s \<and>
   sys_path (uncache_exit names s) = sys_path s \<and>
   sys_path_hooks (uncache_exit names s) = sys_path_hooks s \<and>
   sys_path_importer_cache (uncache_exit names s) = sys_path_importer_cache s"
  by (induction names arbitrary: s) (auto simp: del_module_def split: option.splits)

lemma uncache_enter_ok:
  "set names \<inter> {''sys'', ''marshal'', ''imp''} = {} \<Longrightarrow>
   uncache_enter names s = (uncache_exit names s, None)"
  by (induction names arbitrary: s) auto

lemma uncache_enter_None:
  "uncache_enter names s = (s1, None) \<Longrightarrow> s1 = uncache_exit names s"
  by (induction names arbitrary: s) (auto split: if_splits)

lemma uncache_enter_others:
  "n \<notin> set names \<Longrightarrow> sys_modules (fst (uncache_enter names s)) n = sys_modules s n"
  by (induction names arbitrary: s) (auto simp: del_module_modules)

lemma create_one_modules:
  "create_one h td name loc (s, fs) = (loc', (s', fs'), r) \<Longrightarrow>
     sys_modules s' = (sys_modules s)(cm_import_name name := None) \<and>
     set (import_names loc') = insert (cm_import_name name) (set (import_names loc)) \<and>
     sys_meta_path s' = sys_meta_path s \<and> sys_path s' = sys_path s \<and>
     sys_path_hooks s' = sys_path_hooks s \<and>
     sys_path_importer_cache s' = sys_path_importer_cache s"
  by (auto simp: create_one_def Let_def split: option.splits prod.splits sum.splits if_splits)

lemma create_all_modules:
  "create_all h td names loc (s, fs) = (loc', (s', fs'), r) \<Longrightarrow>
     (\<forall>n. n \<notin> cm_import_name ` set names \<longrightarrow> sys_modules s' n = sys_modules s n) \<and>
     (r = None \<longrightarrow>
        sys_modules s' = sys_modules s |` (- cm_import_name ` set names) \<and>
        set (import_names loc') = set (import_names loc) \<union> cm_import_name ` set names)"
proof (induction names arbitrary: loc s fs)
  case Nil
  then show ?case by simp
next
  case (Cons name names)
  obtain loc1 s1 fs1 r1 where one: "create_one h td name loc (s, fs) = (loc1, (s1, fs1), r1)"
    by (metis prod.exhaust)
  note m = create_one_modules [OF one]
  show ?case
  proof (cases r1)
    case (Some e)
    with Cons.prems one have "s' = s1" "r = Some e" by simp_all
    with m show ?thesis by simp
  next
    case None
    with Cons.prems one have "create_all h td names loc1 (s1, fs1) = (loc', (s', fs'), r)"
      by simp
    from Cons.IH [OF this] m show ?thesis
      by (auto simp: restrict_map_def fun_eq_iff)
  qed
qed

lemma import_state_enter_modules:
  "sys_modules (fst (import_state_enter kw s)) = sys_modules s"
proof -
  obtain kw' orig s1 where l: "import_state_loop import_state_defaults kw [] s = (kw', orig, s1)"
    by (cases "import_state_loop import_state_defaults kw [] s")
  have "sys_modules s1 = sys_modules s"
    using import_state_loop_frame [of import_state_defaults kw "[]" s] by (simp add: l)
  then show ?thesis
    by (simp add: import_state_enter_def l import_state_exit_frame)
qed

lemma create_modules_enter_ok:
  assumes "create_modules_enter h names (s, fs) = (w1, fr, None)"
  shows "sys_modules (fst w1) = sys_modules s |` (- cm_import_name ` set names) \<and>
         (\<exists>ns. uncache_manager fr = Suspended ns \<and> set ns = cm_import_name ` set names)"
proof -
  obtain fs0 td where t: "tempfile_mkdtemp h fs = (fs0, Inr td)"
    using assms by (auto simp: create_modules_enter_def split: prod.splits sum.splits)
  let ?loc0 = "\<lparr>created_paths = [], mapping = [''.root'' \<mapsto> td], import_names = []\<rparr>"
  obtain loc s1 fs1 where c: "create_all h td names ?loc0 (s, fs0) = (loc, (s1, fs1), None)"
    using assms t
    by (auto simp: create_modules_enter_def split: prod.splits sum.splits option.splits)
  obtain s2 where u: "uncache_enter (import_names loc) s1 = (s2, None)"
    using assms t c
    by (auto simp: create_modules_enter_def split: prod.splits sum.splits option.splits)
  obtain s3 orig where i: "import_state_enter [(''path'', PyList [PyStr td])] s2 = (s3, Inr orig)"
    using assms t c u
    by (auto simp: create_modules_enter_def split: prod.splits sum.splits option.splits)
  from assms t c u i have w1: "w1 = (s3, fs1)"
    and fr: "uncache_manager fr = Suspended (import_names loc)"
    by (auto simp: create_modules_enter_def)
  from create_all_modules [OF c]
  have m1: "sys_modules s1 = sys_modules s |` (- cm_import_name ` set names)"
    and ns: "set (import_names loc) = cm_import_name ` set names"
    by simp_all
  have m2: "sys_modules s2 = sys_modules s1 |` (- set (import_names loc))"
    using uncache_enter_None [OF u] by (simp add: uncache_exit_modules)
  have m3: "sys_modules s3 = sys_modules s2"
    using import_state_enter_modules [of "[(''path'', PyList [PyStr td])]" s2] by (simp add: i)
  from m1 m2 m3 ns w1 fr show ?thesis by simp
qed

lemma create_modules_finally_modules:
  "sys_modules (fst (fst (create_modules_finally h fr (s, fs)))) =
     (case uncache_manager fr of
        Suspended ns \<Rightarrow> sys_modules s |` (- set ns)
      | Exhausted \<Rightarrow> sys_modules s
      | Unset \<Rightarrow> sys_modules s)"
  by (simp add: create_modules_finally_def Let_def uncache_exit_modules import_state_exit_frame
      split: manager.splits option.splits prod.splits)

text \<open>
  Claim C2, as stated, fails: \<^verbatim>\<open>uncache\<close> deletes the named entries on entry and again
  on exit and never puts one back. An entry for \<^verbatim>\<open>foo\<close> that is in \<^verbatim>\<open>sys.modules\<close>
  before \<^verbatim>\<open>with uncache('foo'): pass\<close> is gone after it.
\<close>

theorem uncache_does_not_restore:
  "sys_modules example_sys ''foo'' = Some (new_module 0 ''foo'') \<and>
   snd (uncache [''foo''] pass_body example_sys) = None \<and>
   sys_modules (fst (uncache [''foo''] pass_body example_sys)) ''foo'' = None"
  by (simp add: example_sys_def uncache_def pass_body_def del_module_def)

text \<open>
  Claim C2, amended. When none of \<open>names\<close> is \<^verbatim>\<open>sys\<close>, \<^verbatim>\<open>marshal\<close> or \<^verbatim>\<open>imp\<close>,
  the body of \<^verbatim>\<open>with uncache(*names)\<close> starts with \<^verbatim>\<open>sys.modules\<close> as it was before
  entry without the entries for \<open>names\<close>, and after exit \<^verbatim>\<open>sys.modules\<close> is what the
  body left, again without the entries for \<open>names\<close>. The same holds of
  \<^verbatim>\<open>create_modules\<close> and the import names of its arguments, whenever its generator
  reaches the \<^verbatim>\<open>yield\<close>. So an entry under another name that the body leaves alone
  is bound to the same module object after exit, and the names themselves have no entry.
\<close>

theorem uncache_removes_names:
  "(set names \<inter> {''sys'', ''marshal'', ''imp''} = {} \<longrightarrow>
      sys_modules (fst (uncache_enter names s)) = sys_modules s |` (- set names) \<and>
      sys_modules (fst (uncache names b s))
        = sys_modules (fst (b (fst (uncache_enter names s)))) |` (- set names)) \<and>
   (\<forall>w1 fr. create_modules_enter h names (s, fs) = (w1, fr, None) \<longrightarrow>
      sys_modules (fst w1) = sys_modules s |` (- cm_import_name ` set names) \<and>
      sys_modules (fst (fst (create_modules h names cb (s, fs))))
        = sys_modules (fst (fst (cb (yielded fr) w1))) |` (- cm_import_name ` set names))"
proof (intro conjI impI allI)
  assume ok: "set names \<inter> {''sys'', ''marshal'', ''imp''} = {}"
  show "sys_modules (fst (uncache_enter names s)) = sys_modules s |` (- set names)"
    by (simp add: uncache_enter_ok [OF ok] uncache_exit_modules)
  show "sys_modules (fst (uncache names b s))
        = sys_modules (fst (b (fst (uncache_enter names s)))) |` (- set names)"
    by (simp add: uncache_def uncache_enter_ok [OF ok] uncache_exit_modules split: prod.splits)
next
  fix w1 fr
  assume e: "create_modules_enter h names (s, fs) = (w1, fr, None)"
  from create_modules_enter_ok [OF e]
  obtain ns where m: "sys_modules (fst w1) = sys_modules s |` (- cm_import_name ` set names)"
    and u: "uncache_manager fr = Suspended ns" and ns: "set ns = cm_import_name ` set names"
    by blast
  show "sys_modules (fst w1) = sys_modules s |` (- cm_import_name ` set names)"
    by (rule m)
  obtain s2 fs2 r where b: "cb (yielded fr) w1 = ((s2, fs2), r)"
    by (metis prod.exhaust)
  have "fst (create_modules h names cb (s, fs)) = fst (create_modules_finally h fr (s2, fs2))"
    by (simp add: create_modules_def e b split: prod.splits option.splits)
  then show "sys_modules (fst (fst (create_modules h names cb (s, fs))))
        = sys_modules (fst (fst (cb (yielded fr) w1))) |` (- cm_import_name ` set names)"
    by (simp add: create_modules_finally_modules u ns b)
qed

lemma example_enter_ok:
  "snd (snd (create_modules_enter example_host [''foo''] (example_sys, []))) = None"
  by (simp add: create_modules_enter_def example_host_def create_one_def cm_import_name_def
      endswith_def Let_def import_state_enter_def import_state_defaults_def del_kwarg_def
      del_module_def example_sys_def)

theorem uncache_removes_names_witness:
  "set [''foo''] \<inter> {''sys'', ''marshal'', ''imp''} = {} \<and>
   snd (snd (create_modules_enter example_host [''foo''] (example_sys, []))) = None \<and>
   sys_modules (fst (uncache [''foo''] pass_body example_sys)) ''foo'' = None \<and>
   sys_modules (fst (uncache [''foo''] pass_body example_sys)) ''os'' = Some (new_module 7 ''os'') \<and>
   sys_modules (fst (fst (create_modules example_host [''foo''] pass_cm_body (example_sys, []))))
     ''foo'' = None \<and>
   sys_modules (fst (fst (create_modules example_host [''foo''] pass_cm_body (example_sys, []))))
     ''os'' = Some (new_module 7 ''os'')"
proof -
  have a: "set [''foo''] \<inter> {''sys'', ''marshal'', ''imp''} = {}" by simp
  have b: "snd (snd (create_modules_enter example_host [''foo''] (example_sys, []))) = None"
    by (rule example_enter_ok)
  obtain w1 fr where e: "create_modules_enter example_host [''foo''] (example_sys, []) = (w1, fr, None)"
    using b by (cases "create_modules_enter example_host [''foo''] (example_sys, [])") simp
  note T = uncache_removes_names [of "[''foo'']" example_sys pass_body example_host "[]" pass_cm_body]
  have c: "cm_import_name ''foo'' = ''foo''"
    by (simp add: cm_import_name_def endswith_def)
  from T a have u: "sys_modules (fst (uncache [''foo''] pass_body example_sys))
      = sys_modules example_sys |` (- {''foo''})"
    by (simp add: pass_body_def)
  from T e have m: "sys_modules (fst (fst (create_modules example_host [''foo''] pass_cm_body (example_sys, []))))
      = sys_modules example_sys |` (- {''foo''})"
    by (simp add: pass_cm_body_def c)
  have v: "(sys_modules example_sys |` (- {''foo''})) ''foo'' = None"
    "(sys_modules example_sys |` (- {''foo''})) ''os'' = Some (new_module 7 ''os'')"
    by (simp_all add: example_sys_def)
  from a b v show ?thesis
    by (simp only: u m)
qed

section \<open>Where the exceptions come from\<close>

lemma uncache_enter_error:
  "uncache_enter names s = (s1, Some e) \<Longrightarrow> exc_cls e = ValueError"
  by (induction names arbitrary: s) (auto split: if_splits)

lemma uncache_error:
  "snd (uncache names b s) = Some e \<Longrightarrow> exc_cls e = ValueError \<or> (\<exists>t. snd (b t) = Some e)"
  by (auto simp: uncache_def split: prod.splits option.splits dest: uncache_enter_error)
    (metis snd_conv)

lemma import_state_enter_error:
  "import_state_enter kw s = (s1, Inl e) \<Longrightarrow> exc_cls e = ValueError"
  by (auto simp: import_state_enter_def split: prod.splits if_splits)

lemma import_state_error:
  "snd (import_state kw b s) = Some e \<Longrightarrow> exc_cls e = ValueError \<or> (\<exists>t. snd (b t) = Some e)"
  by (auto simp: import_state_def split: prod.splits sum.splits dest: import_state_enter_error)
    (metis snd_conv)

lemma temporary_pycache_prefix_error:
  "snd (temporary_pycache_prefix prefix b s) = Some e \<Longrightarrow> \<exists>t. snd (b t) = Some e"
  by (auto simp: temporary_pycache_prefix_def Let_def split: prod.splits) (metis snd_conv)

lemma writes_bytecode_files_error:
  "snd (writes_bytecode_files s0 f args s) = Inl e \<Longrightarrow> \<exists>t. snd (f args t) = Inl e"
  by (auto simp: writes_bytecode_files_def wrapper_def Let_def split: prod.splits if_splits)
    (metis snd_conv)

lemma load_module_error:
  "snd (load_module self fullname s) = Inl e \<Longrightarrow>
     exc_cls e = ImportError \<or> exc_cls e = KeyError \<or>
     (\<exists>code t. module_code self fullname = Some code \<and> snd (code t) = Some e)"
  by (auto simp: load_module_def Let_def split: option.splits prod.splits if_splits)
    (metis snd_conv)+

lemma exec_module_error:
  "snd (exec_module self m s) = Some e \<Longrightarrow>
     exc_cls e = AttributeError \<or>
     (\<exists>spec code t. mod_spec m = Some spec \<and> module_code self (spec_name spec) = Some code \<and>
        snd (code t) = Some e)"
  by (auto simp: exec_module_def split: option.splits prod.splits if_splits) (metis snd_conv)

lemma make_dirs_error:
  "make_dirs h ds fp cr fs = (fs', cr', Inl e) \<Longrightarrow> \<exists>p fs0 fs1. os_mkdir h p fs0 = (fs1, Some e)"
proof (induction ds arbitrary: fp cr fs)
  case Nil
  then show ?case by simp
next
  case (Cons d ds)
  then show ?case
    by (auto simp: Let_def split: if_splits prod.splits option.splits)
qed

lemma create_one_error:
  "create_one h td name loc w = (loc', w', Some e) \<Longrightarrow>
     (\<exists>p fs0 fs1. os_mkdir h p fs0 = (fs1, Some e)) \<or>
     (\<exists>p t fs0 fs1. open_write h p t fs0 = (fs1, Some e))"
  by (auto simp: create_one_def Let_def split: prod.splits sum.splits option.splits
      dest: make_dirs_error)

lemma create_all_error:
  "create_all h td names loc w = (loc', w', Some e) \<Longrightarrow>
     (\<exists>p fs0 fs1. os_mkdir h p fs0 = (fs1, Some e)) \<or>
     (\<exists>p t fs0 fs1. open_write h p t fs0 = (fs1, Some e))"
proof (induction names arbitrary: loc w)
  case Nil
  then show ?case by simp
next
  case (Cons name names)
  obtain loc1 w1 r1 where one: "create_one h td name loc w = (loc1, w1, r1)"
    by (metis prod.exhaust)
  show ?case
  proof (cases r1)
    case None
    with Cons.prems one have "create_all h td names loc1 w1 = (loc', w', Some e)" by simp
    then show ?thesis by (rule Cons.IH)
  next
    case (Some e1)
    with Cons.prems one have "e1 = e" by simp
    with Some one show ?thesis using create_one_error by blast
  qed
qed

lemma create_modules_enter_error:
  assumes "create_modules_enter h names w = (w1, fr, Some e)"
  shows "exc_cls e = ValueError \<or> host_raises h e"
proof -
  obtain s fs where w: "w = (s, fs)" by (cases w)
  show ?thesis
  proof (cases "tempfile_mkdtemp h fs")
    case (Pair fs0 r)
    show ?thesis
    proof (cases r)
      case (Inl e0)
      with assms w Pair have "e0 = e" by (simp add: create_modules_enter_def)
      with Inl Pair show ?thesis by blast
    next
      case (Inr td)
      let ?loc0 = "\<lparr>created_paths = [], mapping = [''.root'' \<mapsto> td], import_names = []\<rparr>"
      obtain loc s1 fs1 r1 where c: "create_all h td names ?loc0 (s, fs0) = (loc, (s1, fs1), r1)"
        by (metis prod.exhaust)
      show ?thesis
      proof (cases r1)
        case (Some e1)
        with assms w Pair Inr c have "e1 = e" by (simp add: create_modules_enter_def)
        with Some c show ?thesis using create_all_error by blast
      next
        case None
        obtain s2 r2 where u: "uncache_enter (import_names loc) s1 = (s2, r2)"
          by (metis prod.exhaust)
        show ?thesis
        proof (cases r2)
          case (Some e2)
          with assms w Pair Inr c None u have "e2 = e" by (simp add: create_modules_enter_def)
          with Some u show ?thesis using uncache_enter_error by blast
        next
          case n2: None
          obtain s3 r3 where i: "import_state_enter [(''path'', PyList [PyStr td])] s2 = (s3, r3)"
            by (metis prod.exhaust)
          show ?thesis
          proof (cases r3)
            case (Inl e3)
            with assms w Pair Inr c None u n2 i have "e3 = e"
              by (simp add: create_modules_enter_def)
            with Inl i show ?thesis using import_state_enter_error by blast
          next
            case (Inr orig)
            with assms w Pair \<open>r = Inr td\<close> c None u n2 i show ?thesis
              by (simp add: create_modules_enter_def)
          qed
        qed
      qed
    qed
  qed
qed

lemma create_modules_finally_error:
  "create_modules_finally h fr w = (w', Some e) \<Longrightarrow>
     exc_cls e = UnboundLocalError \<or> (\<exists>p fs fs'. support_rmtree h p fs = (fs', Some e))"
  by (auto simp: create_modules_finally_def Let_def split: prod.splits option.splits)

lemma create_modules_error:
  assumes "snd (create_modules h names cb w) = Some e"
  shows "exc_cls e = ValueError \<or> exc_cls e = UnboundLocalError \<or>
         (\<exists>m t. snd (cb m t) = Some e) \<or> host_raises h e"
proof -
  obtain w1 fr r where en: "create_modules_enter h names w = (w1, fr, r)"
    by (metis prod.exhaust)
  show ?thesis
  proof (cases r)
    case (Some e1)
    obtain w2 r2 where f: "create_modules_finally h fr w1 = (w2, r2)" by (metis prod.exhaust)
    show ?thesis
    proof (cases r2)
      case None
      with assms en Some f have "e1 = e" by (simp add: create_modules_def)
      with en Some show ?thesis using create_modules_enter_error by blast
    next
      case s2: (Some e2)
      with assms en Some f have "e2 = e" by (simp add: create_modules_def)
      with f s2 show ?thesis using create_modules_finally_error by blast
    qed
  next
    case None
    obtain w2 rb where b: "cb (yielded fr) w1 = (w2, rb)" by (metis prod.exhaust)
    obtain w3 r3 where f: "create_modules_finally h fr w2 = (w3, r3)" by (metis prod.exhaust)
    show ?thesis
    proof (cases r3)
      case n3: None
      with assms en None b f have "rb = Some e" by (simp add: create_modules_def)
      with b have "snd (cb (yielded fr) w1) = Some e" by simp
      then show ?thesis by blast
    next
      case (Some e3)
      with assms en None b f have "e3 = e" by (simp add: create_modules_def)
      with f Some show ?thesis using create_modules_finally_error by blast
    qed
  qed
qed

lemma uncache_surfaces:
  "set names \<inter> {''sys'', ''marshal'', ''imp''} = {} \<Longrightarrow>
   snd (uncache names b s) = snd (b (fst (uncache_enter names s)))"
  by (simp add: uncache_def uncache_enter_ok split: prod.splits)

lemma import_state_enter_known:
  assumes "fst ` set kw \<subseteq> attr_name ` {Meta_path, Path, Path_hooks, Path_importer_cache}"
  shows "\<exists>s1 orig. import_state_enter kw s = (s1, Inr orig)"
proof -
  obtain kw' orig s1 where l: "import_state_loop import_state_defaults kw [] s = (kw', orig, s1)"
    by (cases "import_state_loop import_state_defaults kw [] s")
  have v: "attr_name ` fst ` set import_state_defaults
      = attr_name ` {Meta_path, Path, Path_hooks, Path_importer_cache}"
    by (simp add: import_state_defaults_def)
  have "kw' = filter (\<lambda>p. fst p \<notin> attr_name ` {Meta_path, Path, Path_hooks, Path_importer_cache}) kw"
    using import_state_loop_kwargs [of import_state_defaults kw "[]" s] by (simp only: l v fst_conv)
  also have "\<dots> = []"
    using assms by (auto simp: filter_empty_conv)
  finally show ?thesis
    by (simp add: import_state_enter_def l)
qed

lemma import_state_surfaces:
  assumes "fst ` set kw \<subseteq> attr_name ` {Meta_path, Path, Path_hooks, Path_importer_cache}"
  shows "snd (import_state kw b s) = snd (b (fst (import_state_enter kw s)))"
proof -
  from import_state_enter_known [OF assms]
  obtain s1 orig where "import_state_enter kw s = (s1, Inr orig)" by blast
  then show ?thesis by (simp add: import_state_def split: prod.splits)
qed

lemma temporary_pycache_prefix_surfaces:
  "snd (temporary_pycache_prefix prefix b s) = snd (b (s\<lparr>sys_pycache_prefix := prefix\<rparr>))"
  by (simp add: temporary_pycache_prefix_def Let_def split: prod.splits)

lemma wrapper_surfaces:
  "\<not> sys_dont_write_bytecode s0 \<Longrightarrow>
   snd (writes_bytecode_files s0 f args s) = snd (f args (s\<lparr>sys_dont_write_bytecode := False\<rparr>))"
  by (simp add: writes_bytecode_files_def wrapper_def Let_def split: prod.splits)

lemma load_module_surfaces:
  "modules self fullname = Some md \<Longrightarrow> module_code self fullname = Some code \<Longrightarrow>
   code (s\<lparr>sys_modules := (sys_modules s)(fullname \<mapsto> md)\<rparr>) = (s2, Some e) \<Longrightarrow>
   (isinstance e Exception \<longrightarrow> sys_modules s2 fullname \<noteq> None) \<Longrightarrow>
   snd (load_module self fullname s) = Inl e"
  by (auto simp: load_module_def Let_def split: option.splits)

lemma exec_module_surfaces:
  "mod_spec m = Some sp \<Longrightarrow> module_code self (spec_name sp) = Some code \<Longrightarrow>
   code s = (s2, Some e) \<Longrightarrow>
   snd (exec_module self m s) = (if isinstance e KeyError then None else Some e)"
  by (simp add: exec_module_def)

lemma reader_surfaces:
  "r_file r = PyExc e \<Longrightarrow> isinstance e Exception \<Longrightarrow> snd (open_resource r res) = Inl e"
  "r_path r = PyExc e \<Longrightarrow> isinstance e Exception \<Longrightarrow> snd (resource_path r res) = Inl e"
  "r_path r = PyExc e \<Longrightarrow> isinstance e Exception \<Longrightarrow> snd (is_resource r res) = Inl e"
  "g_pc g = Unstarted \<Longrightarrow> g_path g = PyExc e \<Longrightarrow> isinstance e Exception \<Longrightarrow>
     snd (gen_next g) = Raise e"
  by (simp_all add: open_resource_def resource_path_def is_resource_def gen_next_def)

lemma ensure_bytecode_path_surfaces:
  "os_mkdir h (dirname bytecode_path) fs = (fs', Some e) \<Longrightarrow>
   snd (ensure_bytecode_path h dirname eexist bytecode_path fs)
     = (if isinstance e OSError \<and> exc_errno e = Some eexist then None else Some e)"
  by (simp add: ensure_bytecode_path_def)

lemma ensure_bytecode_path_error:
  "snd (ensure_bytecode_path h dirname eexist bytecode_path fs) = Some e \<Longrightarrow>
   \<exists>q fs0 fs1. os_mkdir h q fs0 = (fs1, Some e)"
  by (auto simp: ensure_bytecode_path_def split: prod.splits option.splits if_splits)

lemma create_modules_body_surfaces:
  "create_modules_enter h names w = (w1, fr, None) \<Longrightarrow> cb (yielded fr) w1 = (w2, res2) \<Longrightarrow>
   snd (create_modules_finally h fr w2) = None \<Longrightarrow>
   snd (create_modules h names cb w) = res2"
  by (cases "create_modules_finally h fr w2") (simp add: create_modules_def)

lemma create_modules_setup_surfaces:
  "create_modules_enter h names w = (w1, fr, Some e) \<Longrightarrow>
   snd (create_modules_finally h fr w1) = None \<Longrightarrow>
   snd (create_modules h names cb w) = Some e"
  by (cases "create_modules_finally h fr w1") (simp add: create_modules_def)

lemma ImporterMock_with_uncache: "ImporterMock_with keys b s = uncache keys b s"
  by (simp add: ImporterMock_with_def ImporterMock_enter_def ImporterMock_exit_def uncache_def
      split: prod.splits option.splits)

text \<open>
  Claim C5, as stated, fails: not every error is surfaced unmodified. A \<^verbatim>\<open>KeyError\<close>
  that registered module code raises is swallowed by \<^verbatim>\<open>exec_module\<close>; when module code
  has removed its own entry and raises \<^verbatim>\<open>ValueError\<close>, \<^verbatim>\<open>load_module\<close> leaves with the
  \<^verbatim>\<open>KeyError\<close> of its \<^verbatim>\<open>del\<close>; and when \<^verbatim>\<open>mkdtemp\<close> raises \<^verbatim>\<open>OSError\<close>,
  \<^verbatim>\<open>create_modules\<close> leaves with \<^verbatim>\<open>UnboundLocalError\<close>.
\<close>

theorem helpers_do_not_surface_every_error:
  "snd (raise_body key_error empty_sys) = Some key_error \<and>
   snd (exec_module (foo_importer (raise_body key_error)) foo_with_spec empty_sys) = None \<and>
   snd (delete_and_raise ''foo'' (Exc ValueError (Msg ''bad''))
          (empty_sys\<lparr>sys_modules := (sys_modules empty_sys)(''foo'' \<mapsto> new_module 0 ''foo'')\<rparr>))
     = Some (Exc ValueError (Msg ''bad'')) \<and>
   snd (load_module (foo_importer (delete_and_raise ''foo'' (Exc ValueError (Msg ''bad''))))
          ''foo'' empty_sys)
     = Inl (Exc KeyError (Msg ''foo'')) \<and>
   snd (tempfile_mkdtemp full_disk_host [])
     = Inl (Exc OSError (OSArgs 28 ''No space left on device'')) \<and>
   snd (create_modules full_disk_host [''foo''] pass_cm_body (example_sys, []))
     = Some (Exc UnboundLocalError NoArgs)"
  by (simp add: raise_body_def key_error_def exec_module_def foo_importer_simps foo_with_spec_def
      example_spec_def isinstance_def issubclass_def delete_and_raise_def load_module_def
      Let_def full_disk_host_def example_host_def create_modules_def create_modules_enter_def
      create_modules_finally_def)

text \<open>
  Claim C5, amended. For \<^verbatim>\<open>uncache\<close>, \<^verbatim>\<open>import_state\<close>, \<^verbatim>\<open>temporary_pycache_prefix\<close>,
  the wrapper of \<^verbatim>\<open>writes_bytecode_files\<close>, the importer mocks (as context managers and
  in their methods), the hook of \<^verbatim>\<open>mock_path_hook\<close>, the reader of \<^verbatim>\<open>create_package\<close>,
  \<^verbatim>\<open>ensure_bytecode_path\<close> and \<^verbatim>\<open>create_modules\<close>:

  \<^item> An exception that leaves one of them is an instance of \<^verbatim>\<open>ValueError\<close>,
    \<^verbatim>\<open>ImportError\<close>, \<^verbatim>\<open>KeyError\<close>, \<^verbatim>\<open>AttributeError\<close> or \<^verbatim>\<open>UnboundLocalError\<close>,
    which are classes of the host, or it is the exception that the body, the wrapped
    function, the registered module code or a function of the host raised, or the
    exception object given as \<^verbatim>\<open>file\<close> or \<^verbatim>\<open>path\<close>. No helper raises an instance of
    a class of its own.

  \<^item> \<^verbatim>\<open>uncache\<close> and the importer mocks (for names they accept), \<^verbatim>\<open>import_state\<close>
    (for keywords it knows), \<^verbatim>\<open>temporary_pycache_prefix\<close> and the wrapper end as their
    body or function ends, so its exception leaves unchanged; \<^verbatim>\<open>find_spec\<close> returns or
    raises what \<^verbatim>\<open>spec_from_file_location\<close> does; the reader raises the very
    \<^verbatim>\<open>file\<close> or \<^verbatim>\<open>path\<close> it was given.

  \<^item> \<^verbatim>\<open>load_module\<close> raises the exception of the module code unchanged when that is
    no instance of \<^verbatim>\<open>Exception\<close> or the entry of the module is still there;
    \<^verbatim>\<open>exec_module\<close> swallows an instance of \<^verbatim>\<open>KeyError\<close> and raises any other
    exception of the code unchanged; \<^verbatim>\<open>ensure_bytecode_path\<close> swallows an \<^verbatim>\<open>OSError\<close>
    whose \<^verbatim>\<open>errno\<close> is \<^verbatim>\<open>EEXIST\<close> and raises any other exception of \<^verbatim>\<open>mkdir\<close>
    unchanged.

  \<^item> \<^verbatim>\<open>create_modules\<close> ends as its body ends, and with the exception that stopped
    its setup, whenever its \<^verbatim>\<open>finally\<close> block completes.
\<close>

theorem helpers_error_provenance:
  "(\<forall>e. snd (uncache names b s) = Some e \<longrightarrow>
      exc_cls e = ValueError \<or> (\<exists>t. snd (b t) = Some e)) \<and>
   (\<forall>e. snd (ImporterMock_with keys b s) = Some e \<longrightarrow>
      exc_cls e = ValueError \<or> (\<exists>t. snd (b t) = Some e)) \<and>
   (\<forall>e. snd (import_state kw b s) = Some e \<longrightarrow>
      exc_cls e = ValueError \<or> (\<exists>t. snd (b t) = Some e)) \<and>
   (\<forall>e. snd (temporary_pycache_prefix prefix b s) = Some e \<longrightarrow> (\<exists>t. snd (b t) = Some e)) \<and>
   (\<forall>e. snd (writes_bytecode_files s0 f args s) = Inl e \<longrightarrow> (\<exists>t. snd (f args t) = Inl e)) \<and>
   (\<forall>e. getitem self fullname = Inl e \<longrightarrow> exc_cls e = KeyError) \<and>
   (\<forall>e. snd (load_module self fullname s) = Inl e \<longrightarrow>
      exc_cls e = ImportError \<or> exc_cls e = KeyError \<or>
      (\<exists>code t. module_code self fullname = Some code \<and> snd (code t) = Some e)) \<and>
   (\<forall>e. snd (exec_module self m s) = Some e \<longrightarrow>
      exc_cls e = AttributeError \<or>
      (\<exists>spec code t. mod_spec m = Some spec \<and> module_code self (spec_name spec) = Some code \<and>
         snd (code t) = Some e)) \<and>
   (\<forall>e. create_module self spec = Inl e \<longrightarrow> exc_cls e = ImportError) \<and>
   (\<forall>e. find_spec sffl self fullname p parent = Inl e \<longrightarrow>
      (\<exists>name location loader search. sffl name location loader search = Inl e)) \<and>
   (\<forall>e. mock_path_hook entries imp entry = Inl e \<longrightarrow> exc_cls e = ImportError) \<and>
   (\<forall>e. snd (open_resource r res) = Inl e \<longrightarrow> r_file r = PyExc e) \<and>
   (\<forall>e. snd (resource_path r res) = Inl e \<longrightarrow> r_path r = PyExc e) \<and>
   (\<forall>e. snd (is_resource r res) = Inl e \<longrightarrow> r_path r = PyExc e) \<and>
   (\<forall>e. snd (gen_next g) = Raise e \<longrightarrow> g_path g = PyExc e) \<and>
   (\<forall>e. snd (ensure_bytecode_path h dirname eexist bytecode_path fs) = Some e \<longrightarrow>
      (\<exists>q fs0 fs1. os_mkdir h q fs0 = (fs1, Some e))) \<and>
   (\<forall>e. snd (create_modules h names cb w) = Some e \<longrightarrow>
      exc_cls e = ValueError \<or> exc_cls e = UnboundLocalError \<or>
      (\<exists>mp t. snd (cb mp t) = Some e) \<or> host_raises h e) \<and>
   host_defined ValueError \<and>
   host_defined ImportError \<and>
   host_defined KeyError \<and>
   host_defined AttributeError \<and>
   host_defined UnboundLocalError \<and>
   (set names \<inter> {''sys'', ''marshal'', ''imp''} = {} \<longrightarrow>
      snd (uncache names b s) = snd (b (fst (uncache_enter names s)))) \<and>
   (set keys \<inter> {''sys'', ''marshal'', ''imp''} = {} \<longrightarrow>
      snd (ImporterMock_with keys b s) = snd (b (fst (ImporterMock_enter keys s)))) \<and>
   (fst ` set kw \<subseteq> attr_name ` {Meta_path, Path, Path_hooks, Path_importer_cache} \<longrightarrow>
      snd (import_state kw b s) = snd (b (fst (import_state_enter kw s)))) \<and>
   snd (temporary_pycache_prefix prefix b s) = snd (b (s\<lparr>sys_pycache_prefix := prefix\<rparr>)) \<and>
   (\<not> sys_dont_write_bytecode s0 \<longrightarrow>
      snd (writes_bytecode_files s0 f args s) = snd (f args (s\<lparr>sys_dont_write_bytecode := False\<rparr>))) \<and>
   (\<forall>md code s2 e.
      modules self fullname = Some md \<and> module_code self fullname = Some code \<and>
      code (s\<lparr>sys_modules := (sys_modules s)(fullname \<mapsto> md)\<rparr>) = (s2, Some e) \<and>
      (isinstance e Exception \<longrightarrow> sys_modules s2 fullname \<noteq> None) \<longrightarrow>
      snd (load_module self fullname s) = Inl e) \<and>
   (\<forall>sp code s2 e.
      mod_spec m = Some sp \<and> module_code self (spec_name sp) = Some code \<and>
      code s = (s2, Some e) \<longrightarrow>
      snd (exec_module self m s) = (if isinstance e KeyError then None else Some e)) \<and>
   (\<forall>md. modules self fullname = Some md \<longrightarrow>
      find_spec sffl self fullname p parent = sffl fullname (mod_file md) (self_id self) (mod_path md)) \<and>
   (\<forall>e. r_file r = PyExc e \<and> isinstance e Exception \<longrightarrow> snd (open_resource r res) = Inl e) \<and>
   (\<forall>e. r_path r = PyExc e \<and> isinstance e Exception \<longrightarrow>
      snd (resource_path r res) = Inl e \<and> snd (is_resource r res) = Inl e) \<and>
   (\<forall>e. g_pc g = Unstarted \<and> g_path g = PyExc e \<and> isinstance e Exception \<longrightarrow>
      snd (gen_next g) = Raise e) \<and>
   (\<forall>fs' e. os_mkdir h (dirname bytecode_path) fs = (fs', Some e) \<longrightarrow>
      snd (ensure_bytecode_path h dirname eexist bytecode_path fs)
        = (if isinstance e OSError \<and> exc_errno e = Some eexist then None else Some e)) \<and>
   (\<forall>w1 fr w2 res2.
      create_modules_enter h names w = (w1, fr, None) \<and> cb (yielded fr) w1 = (w2, res2) \<and>
      snd (create_modules_finally h fr w2) = None \<longrightarrow>
      snd (create_modules h names cb w) = res2) \<and>
   (\<forall>w1 fr e.
      create_modules_enter h names w = (w1, fr, Some e) \<and>
      snd (create_modules_finally h fr w1) = None \<longrightarrow>
      snd (create_modules h names cb w) = Some e)"
proof (intro conjI allI impI)
  fix e assume "snd (uncache names b s) = Some e"
  then show "exc_cls e = ValueError \<or> (\<exists>t. snd (b t) = Some e)" by (rule uncache_error)
next
  fix e assume "snd (ImporterMock_with keys b s) = Some e"
  then have "snd (uncache keys b s) = Some e" by (simp only: ImporterMock_with_uncache)
  then show "exc_cls e = ValueError \<or> (\<exists>t. snd (b t) = Some e)" by (rule uncache_error)
next
  fix e assume "snd (import_state kw b s) = Some e"
  then show "exc_cls e = ValueError \<or> (\<exists>t. snd (b t) = Some e)" by (rule import_state_error)
next
  fix e assume "snd (temporary_pycache_prefix prefix b s) = Some e"
  then show "\<exists>t. snd (b t) = Some e" by (rule temporary_pycache_prefix_error)
next
  fix e assume "snd (writes_bytecode_files s0 f args s) = Inl e"
  then show "\<exists>t. snd (f args t) = Inl e" by (rule writes_bytecode_files_error)
next
  fix e assume "getitem self fullname = Inl e"
  then show "exc_cls e = KeyError"
    by (auto simp: getitem_def split: option.splits)
next
  fix e assume "snd (load_module self fullname s) = Inl e"
  then show "exc_cls e = ImportError \<or> exc_cls e = KeyError \<or>
      (\<exists>code t. module_code self fullname = Some code \<and> snd (code t) = Some e)"
    by (rule load_module_error)
next
  fix e assume "snd (exec_module self m s) = Some e"
  then show "exc_cls e = AttributeError \<or>
      (\<exists>spec code t. mod_spec m = Some spec \<and> module_code self (spec_name spec) = Some code \<and>
         snd (code t) = Some e)"
    by (rule exec_module_error)
next
  fix e assume "create_module self spec = Inl e"
  then show "exc_cls e = ImportError"
    by (auto simp: create_module_def split: option.splits)
next
  fix e assume "find_spec sffl self fullname p parent = Inl e"
  then show "\<exists>name location loader search. sffl name location loader search = Inl e"
    by (auto simp: find_spec_def split: option.splits)
next
  fix e assume "mock_path_hook entries imp entry = Inl e"
  then show "exc_cls e = ImportError"
    by (auto simp: mock_path_hook_def split: if_splits)
next
  fix e assume "snd (open_resource r res) = Inl e"
  then show "r_file r = PyExc e"
    by (auto simp: open_resource_def split: pyval.splits if_splits)
next
  fix e assume "snd (resource_path r res) = Inl e"
  then show "r_path r = PyExc e"
    by (auto simp: resource_path_def split: pyval.splits if_splits)
next
  fix e assume "snd (is_resource r res) = Inl e"
  then show "r_path r = PyExc e"
    by (auto simp: is_resource_def split: pyval.splits if_splits)
next
  fix e assume "snd (gen_next g) = Raise e"
  then show "g_path g = PyExc e"
    by (auto simp: gen_next_def contents_loop_def split: gen_pc.splits pyval.splits if_splits
        list.splits)
next
  fix e assume "snd (ensure_bytecode_path h dirname eexist bytecode_path fs) = Some e"
  then show "\<exists>q fs0 fs1. os_mkdir h q fs0 = (fs1, Some e)"
    by (rule ensure_bytecode_path_error)
next
  fix e assume "snd (create_modules h names cb w) = Some e"
  then show "exc_cls e = ValueError \<or> exc_cls e = UnboundLocalError \<or>
      (\<exists>mp t. snd (cb mp t) = Some e) \<or> host_raises h e"
    by (rule create_modules_error)
next
  show "host_defined ValueError" by simp
next
  show "host_defined ImportError" by simp
next
  show "host_defined KeyError" by simp
next
  show "host_defined AttributeError" by simp
next
  show "host_defined UnboundLocalError" by simp
next
  assume "set names \<inter> {''sys'', ''marshal'', ''imp''} = {}"
  then show "snd (uncache names b s) = snd (b (fst (uncache_enter names s)))"
    by (rule uncache_surfaces)
next
  assume "set keys \<inter> {''sys'', ''marshal'', ''imp''} = {}"
  then show "snd (ImporterMock_with keys b s) = snd (b (fst (ImporterMock_enter keys s)))"
    by (simp only: ImporterMock_with_uncache ImporterMock_enter_def uncache_surfaces)
next
  assume "fst ` set kw \<subseteq> attr_name ` {Meta_path, Path, Path_hooks, Path_importer_cache}"
  then show "snd (import_state kw b s) = snd (b (fst (import_state_enter kw s)))"
    by (rule import_state_surfaces)
next
  show "snd (temporary_pycache_prefix prefix b s) = snd (b (s\<lparr>sys_pycache_prefix := prefix\<rparr>))"
    by (rule temporary_pycache_prefix_surfaces)
next
  assume "\<not> sys_dont_write_bytecode s0"
  then show "snd (writes_bytecode_files s0 f args s)
      = snd (f args (s\<lparr>sys_dont_write_bytecode := False\<rparr>))"
    by (rule wrapper_surfaces)
next
  fix md code s2 e
  assume "modules self fullname = Some md \<and> module_code self fullname = Some code \<and>
      code (s\<lparr>sys_modules := (sys_modules s)(fullname \<mapsto> md)\<rparr>) = (s2, Some e) \<and>
      (isinstance e Exception \<longrightarrow> sys_modules s2 fullname \<noteq> None)"
  then show "snd (load_module self fullname s) = Inl e"
    using load_module_surfaces by blast
next
  fix sp code s2 e
  assume "mod_spec m = Some sp \<and> module_code self (spec_name sp) = Some code \<and>
      code s = (s2, Some e)"
  then show "snd (exec_module self m s) = (if isinstance e KeyError then None else Some e)"
    using exec_module_surfaces by blast
next
  fix md assume "modules self fullname = Some md"
  then show "find_spec sffl self fullname p parent
      = sffl fullname (mod_file md) (self_id self) (mod_path md)"
    by (simp add: find_spec_def)
next
  fix e assume "r_file r = PyExc e \<and> isinstance e Exception"
  then show "snd (open_resource r res) = Inl e" by (simp add: reader_surfaces)
next
  fix e assume "r_path r = PyExc e \<and> isinstance e Exception"
  then show "snd (resource_path r res) = Inl e" by (simp add: reader_surfaces)
next
  fix e assume "r_path r = PyExc e \<and> isinstance e Exception"
  then show "snd (is_resource r res) = Inl e" by (simp add: reader_surfaces)
next
  fix e assume "g_pc g = Unstarted \<and> g_path g = PyExc e \<and> isinstance e Exception"
  then show "snd (gen_next g) = Raise e" by (simp add: reader_surfaces)
next
  fix fs' e assume "os_mkdir h (dirname bytecode_path) fs = (fs', Some e)"
  then show "snd (ensure_bytecode_path h dirname eexist bytecode_path fs)
        = (if isinstance e OSError \<and> exc_errno e = Some eexist then None else Some e)"
    by (rule ensure_bytecode_path_surfaces)
next
  fix w1 fr w2 res2
  assume "create_modules_enter h names w = (w1, fr, None) \<and> cb (yielded fr) w1 = (w2, res2) \<and>
      snd (create_modules_finally h fr w2) = None"
  then show "snd (create_modules h names cb w) = res2"
    using create_modules_body_surfaces by blast
next
  fix w1 fr e
  assume "create_modules_enter h names w = (w1, fr, Some e) \<and>
      snd (create_modules_finally h fr w1) = None"
  then show "snd (create_modules h names cb w) = Some e"
    using create_modules_setup_surfaces by blast
qed

lemma example_errors:
  "snd (uncache [''sys''] (raise_body test_error) example_sys)
     = Some (Exc ValueError (Msg ''cannot uncache sys''))"
  "snd (import_state [(''modules'', PyDict [])] (raise_body test_error) example_sys)
     = Some (Exc ValueError (MsgKeys ''unrecognized arguments: {0}'' [''modules'']))"
  "snd (temporary_pycache_prefix (PyStr ''prefix'') (raise_body test_error) example_sys)
     = Some test_error"
  "snd (writes_bytecode_files example_sys (raise_fxn test_error) [] example_sys) = Inl test_error"
  "snd (load_module (foo_importer (raise_body test_error)) ''foo'' example_sys) = Inl test_error"
  "snd (exec_module (foo_importer (raise_body test_error)) foo_with_spec example_sys)
     = Some test_error"
  "create_module (foo_importer (raise_body test_error)) (example_spec\<lparr>spec_name := ''bar''\<rparr>)
     = Inl (Exc ImportError NoArgs)"
  "find_spec (raising_sffl test_error) (foo_importer (raise_body test_error)) ''foo'' PyNone PyNone
     = Inl test_error"
  "mock_path_hook [''/here''] (0::nat) ''/other'' = Inl (Exc ImportError NoArgs)"
  "snd (open_resource (pkg_loader failing_package) ''a'') = Inl (Exc OSError NoArgs)"
  "snd (resource_path (pkg_loader failing_package) ''a'') = Inl (Exc OSError NoArgs)"
  "snd (is_resource (pkg_loader failing_package) ''a'') = Inl (Exc OSError NoArgs)"
  "snd (gen_next failing_gen) = Raise (Exc OSError NoArgs)"
  by (simp_all add: uncache_def import_state_def import_state_enter_def import_state_defaults_def
      del_kwarg_def Let_def temporary_pycache_prefix_def raise_body_def
      writes_bytecode_files_def wrapper_def raise_fxn_def example_sys_def
      load_module_def foo_importer_def ImporterMock_init_def import_name_of_def endswith_def
      test_error_def isinstance_def issubclass_def exec_module_def foo_with_spec_def
      example_spec_def create_module_def find_spec_def raising_sffl_def mock_path_hook_def
      open_resource_def resource_path_def is_resource_def failing_package_def
      create_package_def gen_next_def failing_gen_def)

lemma example_create_modules_error:
  "snd (create_modules example_host [''sys''] pass_cm_body (example_sys, []))
     = Some (Exc ValueError (Msg ''cannot uncache sys''))"
  by (simp add: create_modules_def create_modules_enter_def create_modules_finally_def
      example_host_def create_one_def cm_import_name_def endswith_def Let_def example_sys_def)

lemma mkdir_fails_host_simps:
  "os_mkdir (mkdir_fails_host n) q fs = (fs, Some (Exc OSError (OSArgs n ''mkdir failed'')))"
  "support_rmtree (mkdir_fails_host n) q fs = (filter (\<lambda>x. take (length q) x \<noteq> q) fs, None)"
  by (simp_all add: mkdir_fails_host_def example_host_def)

lemma create_modules_finally_ok:
  "temp_dir fr = Some td \<Longrightarrow> snd (support_rmtree h td (snd w)) = None \<Longrightarrow>
   snd (create_modules_finally h fr w) = None"
  by (cases w) (auto simp: create_modules_finally_def Let_def split: prod.splits)

lemma example_enter_foo:
  "snd (snd (create_modules_enter (mkdir_fails_host 13) [''foo''] (example_sys, []))) = None"
  "temp_dir (fst (snd (create_modules_enter (mkdir_fails_host 13) [''foo''] (example_sys, []))))
     = Some ''/tmp/t''"
  by (simp_all add: create_modules_enter_def mkdir_fails_host_def example_host_def create_one_def
      cm_import_name_def endswith_def Let_def import_state_enter_def import_state_defaults_def
      del_kwarg_def del_module_def example_sys_def)

lemma example_enter_pkg:
  "snd (snd (create_modules_enter (mkdir_fails_host 13) [''pkg.mod''] (example_sys, [])))
     = Some (Exc OSError (OSArgs 13 ''mkdir failed''))"
  "temp_dir (fst (snd (create_modules_enter (mkdir_fails_host 13) [''pkg.mod''] (example_sys, []))))
     = Some ''/tmp/t''"
  by (simp_all add: create_modules_enter_def mkdir_fails_host_def example_host_def create_one_def
      cm_import_name_def endswith_def Let_def example_sys_def)

lemma example_with_error:
  "snd (ImporterMock_with [''sys''] (raise_body test_error) example_sys)
     = Some (Exc ValueError (Msg ''cannot uncache sys''))"
  by (simp add: ImporterMock_with_def ImporterMock_enter_def)

theorem helpers_error_provenance_witness:
  "snd (uncache [''sys''] (raise_body test_error) example_sys)
     = Some (Exc ValueError (Msg ''cannot uncache sys'')) \<and>
   snd (ImporterMock_with [''sys''] (raise_body test_error) example_sys)
     = Some (Exc ValueError (Msg ''cannot uncache sys'')) \<and>
   snd (import_state [(''modules'', PyDict [])] (raise_body test_error) example_sys)
     = Some (Exc ValueError (MsgKeys ''unrecognized arguments: {0}'' [''modules''])) \<and>
   create_module (foo_importer (raise_body test_error)) (example_spec\<lparr>spec_name := ''bar''\<rparr>)
     = Inl (Exc ImportError NoArgs) \<and>
   mock_path_hook [''/here''] (0::nat) ''/other'' = Inl (Exc ImportError NoArgs) \<and>
   getitem (foo_importer (raise_body key_error)) ''bar'' = Inl (Exc KeyError (Msg ''bar'')) \<and>
   snd (create_modules example_host [''sys''] pass_cm_body (example_sys, []))
     = Some (Exc ValueError (Msg ''cannot uncache sys'')) \<and>
   host_defined ValueError \<and> host_defined ImportError \<and> host_defined KeyError \<and>
   host_defined AttributeError \<and> host_defined UnboundLocalError \<and>
   \<not> host_defined (exc_cls test_error) \<and>
   (\<exists>t. snd (raise_body test_error t) = Some test_error) \<and>
   (\<exists>t. snd (raise_fxn test_error [] t) = Inl test_error) \<and>
   (\<exists>code t. module_code (foo_importer (raise_body test_error)) ''foo'' = Some code \<and>
      snd (code t) = Some test_error) \<and>
   (\<exists>name location loader search.
      raising_sffl test_error name location loader search = (Inl test_error :: exc + module_spec option)) \<and>
   r_file (pkg_loader failing_package) = PyExc (Exc OSError NoArgs) \<and>
   r_path (pkg_loader failing_package) = PyExc (Exc OSError NoArgs) \<and>
   g_path failing_gen = PyExc (Exc OSError NoArgs) \<and>
   (\<exists>q fs0 fs1. os_mkdir (mkdir_fails_host 13) q fs0
      = (fs1 :: string list, Some (Exc OSError (OSArgs 13 ''mkdir failed'')))) \<and>
   snd (uncache [''foo''] (raise_body test_error) example_sys) = Some test_error \<and>
   snd (ImporterMock_with [''foo''] (raise_body test_error) example_sys) = Some test_error \<and>
   snd (import_state [(''path'', PyList [])] (raise_body test_error) example_sys) = Some test_error \<and>
   snd (temporary_pycache_prefix (PyStr ''prefix'') (raise_body test_error) example_sys)
     = Some test_error \<and>
   snd (writes_bytecode_files example_sys (raise_fxn test_error) [] example_sys) = Inl test_error \<and>
   snd (load_module (foo_importer (raise_body test_error)) ''foo'' example_sys) = Inl test_error \<and>
   snd (exec_module (foo_importer (raise_body test_error)) foo_with_spec example_sys)
     = Some test_error \<and>
   snd (exec_module (foo_importer (raise_body key_error)) foo_with_spec example_sys) = None \<and>
   find_spec (raising_sffl test_error) (foo_importer (raise_body test_error)) ''foo'' PyNone PyNone
     = Inl test_error \<and>
   snd (open_resource (pkg_loader failing_package) ''a'') = Inl (Exc OSError NoArgs) \<and>
   snd (resource_path (pkg_loader failing_package) ''a'') = Inl (Exc OSError NoArgs) \<and>
   snd (is_resource (pkg_loader failing_package) ''a'') = Inl (Exc OSError NoArgs) \<and>
   snd (gen_next failing_gen) = Raise (Exc OSError NoArgs) \<and>
   snd (ensure_bytecode_path (mkdir_fails_host 13) example_dirname 17 ''/pkg/__pycache__/mod.pyc'' [])
     = Some (Exc OSError (OSArgs 13 ''mkdir failed'')) \<and>
   snd (ensure_bytecode_path (mkdir_fails_host 17) example_dirname 17 ''/pkg/__pycache__/mod.pyc'' [])
     = None \<and>
   snd (create_modules (mkdir_fails_host 13) [''foo''] (raise_cm_body test_error) (example_sys, []))
     = Some test_error \<and>
   snd (create_modules (mkdir_fails_host 13) [''pkg.mod''] (raise_cm_body test_error) (example_sys, []))
     = Some (Exc OSError (OSArgs 13 ''mkdir failed''))"
proof -
  let ?os = "Exc OSError NoArgs"
  let ?denied = "Exc OSError (OSArgs 13 ''mkdir failed'')"
  note T1 = helpers_error_provenance
    [where names = "[''sys'']" and keys = "[''sys'']" and b = "raise_body test_error"
       and kw = "[(''modules'', PyDict [])]"
       and self = "foo_importer (raise_body test_error)" and fullname = "''foo''"
       and h = example_host and cb = pass_cm_body
       and prefix = "PyStr ''prefix''" and ?s0.0 = example_sys and f = "raise_fxn test_error"
       and args = "[]" and m = foo_with_spec and spec = "example_spec\<lparr>spec_name := ''bar''\<rparr>"
       and sffl = "raising_sffl test_error" and p = PyNone and parent = PyNone
       and entries = "[''/here'']" and imp = "0::nat" and entry = "''/other''"
       and r = "pkg_loader failing_package" and res = "''a''" and g = failing_gen
       and dirname = example_dirname and eexist = 17
       and bytecode_path = "''/pkg/__pycache__/mod.pyc''" and fs = "[]"
       and s = example_sys and w = "(example_sys, [])"]
  note T2 = helpers_error_provenance
    [where names = "[''foo'']" and keys = "[''foo'']" and b = "raise_body test_error"
       and kw = "[(''path'', PyList [])]"
       and self = "foo_importer (raise_body test_error)" and fullname = "''foo''"
       and h = "mkdir_fails_host 13" and cb = "raise_cm_body test_error"
       and prefix = "PyStr ''prefix''" and ?s0.0 = example_sys and f = "raise_fxn test_error"
       and args = "[]" and m = foo_with_spec and spec = "example_spec\<lparr>spec_name := ''bar''\<rparr>"
       and sffl = "raising_sffl test_error" and p = PyNone and parent = PyNone
       and entries = "[''/here'']" and imp = "0::nat" and entry = "''/other''"
       and r = "pkg_loader failing_package" and res = "''a''" and g = failing_gen
       and dirname = example_dirname and eexist = 17
       and bytecode_path = "''/pkg/__pycache__/mod.pyc''" and fs = "[]"
       and s = example_sys and w = "(example_sys, [])"]
  note T3 = helpers_error_provenance
    [where names = "[''pkg.mod'']" and keys = "[''foo'']" and b = "raise_body test_error"
       and kw = "[(''path'', PyList [])]"
       and self = "foo_importer (raise_body key_error)" and fullname = "''bar''"
       and h = "mkdir_fails_host 13" and cb = "raise_cm_body test_error"
       and prefix = "PyStr ''prefix''" and ?s0.0 = example_sys and f = "raise_fxn test_error"
       and args = "[]" and m = foo_with_spec and spec = "example_spec\<lparr>spec_name := ''bar''\<rparr>"
       and sffl = "raising_sffl test_error" and p = PyNone and parent = PyNone
       and entries = "[''/here'']" and imp = "0::nat" and entry = "''/other''"
       and r = "pkg_loader failing_package" and res = "''a''" and g = failing_gen
       and dirname = example_dirname and eexist = 17
       and bytecode_path = "''/pkg/__pycache__/mod.pyc''" and fs = "[]"
       and s = example_sys and w = "(example_sys, [])"]
  note T4 = helpers_error_provenance
    [where names = "[''foo'']" and keys = "[''foo'']" and b = "raise_body test_error"
       and kw = "[(''path'', PyList [])]"
       and self = "foo_importer (raise_body key_error)" and fullname = "''bar''"
       and h = "mkdir_fails_host 17" and cb = "raise_cm_body test_error"
       and prefix = "PyStr ''prefix''" and ?s0.0 = example_sys and f = "raise_fxn test_error"
       and args = "[]" and m = foo_with_spec and spec = "example_spec\<lparr>spec_name := ''bar''\<rparr>"
       and sffl = "raising_sffl test_error" and p = PyNone and parent = PyNone
       and entries = "[''/here'']" and imp = "0::nat" and entry = "''/other''"
       and r = "pkg_loader failing_package" and res = "''a''" and g = failing_gen
       and dirname = example_dirname and eexist = 17
       and bytecode_path = "''/pkg/__pycache__/mod.pyc''" and fs = "[]"
       and s = example_sys and w = "(example_sys, [])"]
  note E = example_errors example_create_modules_error
  have u: "\<not> host_defined (exc_cls test_error)" by (simp add: test_error_def)
  have nc: "exc_cls test_error \<noteq> ImportError" "exc_cls test_error \<noteq> KeyError"
    by (simp_all add: test_error_def)
  have ex: "isinstance ?os Exception" by (simp add: isinstance_def issubclass_def)
  have tx: "isinstance test_error Exception" "\<not> isinstance test_error KeyError"
    by (simp_all add: test_error_def isinstance_def issubclass_def)
  have kx: "isinstance key_error KeyError" by (simp add: key_error_def isinstance_def issubclass_def)
  have gi: "getitem (foo_importer (raise_body key_error)) ''bar'' = Inl (Exc KeyError (Msg ''bar''))"
    by (simp add: getitem_def foo_importer_def ImporterMock_init_def import_name_of_def
        endswith_def)
  note h1 = T1 [THEN conjunct2, THEN conjunct2, THEN conjunct2, THEN conjunct2, THEN conjunct2, THEN conjunct2, THEN conjunct2, THEN conjunct2, THEN conjunct2, THEN conjunct2, THEN conjunct2, THEN conjunct2, THEN conjunct2, THEN conjunct2, THEN conjunct2, THEN conjunct2, THEN conjunct2, THEN conjunct1, rule_format]
  note h2 = T1 [THEN conjunct2, THEN conjunct2, THEN conjunct2, THEN conjunct2, THEN conjunct2, THEN conjunct2, THEN conjunct2, THEN conjunct2, THEN conjunct2, THEN conjunct2, THEN conjunct2, THEN conjunct2, THEN conjunct2, THEN conjunct2, THEN conjunct2, THEN conjunct2, THEN conjunct2, THEN conjunct2, THEN conjunct1, rule_format]
  note h3 = T1 [THEN conjunct2, THEN conjunct2, THEN conjunct2, THEN conjunct2, THEN conjunct2, THEN conjunct2, THEN conjunct2, THEN conjunct2, THEN conjunct2, THEN conjunct2, THEN conjunct2, THEN conjunct2, THEN conjunct2, THEN conjunct2, THEN conjunct2, THEN conjunct2, THEN conjunct2, THEN conjunct2, THEN conjunct2, THEN conjunct1, rule_format]
  note h4 = T1 [THEN conjunct2, THEN conjunct2, THEN conjunct2, THEN conjunct2, THEN conjunct2, THEN conjunct2, THEN conjunct2, THEN conjunct2, THEN conjunct2, THEN conjunct2, THEN conjunct2, THEN conjunct2, THEN conjunct2, THEN conjunct2, THEN conjunct2, THEN conjunct2, THEN conjunct2, THEN conjunct2, THEN conjunct2, THEN conjunct2, THEN conjunct1, rule_format]
  note h5 = T1 [THEN conjunct2, THEN conjunct2, THEN conjunct2, THEN conjunct2, THEN conjunct2, THEN conjunct2, THEN conjunct2, THEN conjunct2, THEN conjunct2, THEN conjunct2, THEN conjunct2, THEN conjunct2, THEN conjunct2, THEN conjunct2, THEN conjunct2, THEN conjunct2, THEN conjunct2, THEN conjunct2, THEN conjunct2, THEN conjunct2, THEN conjunct2, THEN conjunct1, rule_format]
  note o3 = T1 [THEN conjunct2, THEN conjunct2, THEN conjunct2, THEN conjunct1, rule_format, OF E(3)]
  note o4 = T1 [THEN conjunct2, THEN conjunct2, THEN conjunct2, THEN conjunct2, THEN conjunct1, rule_format, OF E(4)]
  note o5 = T1 [THEN conjunct2, THEN conjunct2, THEN conjunct2, THEN conjunct2, THEN conjunct2, THEN conjunct2, THEN conjunct1, rule_format, OF E(5)]
  note o8 = T1 [THEN conjunct2, THEN conjunct2, THEN conjunct2, THEN conjunct2, THEN conjunct2, THEN conjunct2, THEN conjunct2, THEN conjunct2, THEN conjunct2, THEN conjunct1, rule_format, OF E(8)]
  note o10 = T1 [THEN conjunct2, THEN conjunct2, THEN conjunct2, THEN conjunct2, THEN conjunct2, THEN conjunct2, THEN conjunct2, THEN conjunct2, THEN conjunct2, THEN conjunct2, THEN conjunct2, THEN conjunct1, rule_format, OF E(10)]
  note o11 = T1 [THEN conjunct2, THEN conjunct2, THEN conjunct2, THEN conjunct2, THEN conjunct2, THEN conjunct2, THEN conjunct2, THEN conjunct2, THEN conjunct2, THEN conjunct2, THEN conjunct2, THEN conjunct2, THEN conjunct1, rule_format, OF E(11)]
  note o13 = T1 [THEN conjunct2, THEN conjunct2, THEN conjunct2, THEN conjunct2, THEN conjunct2, THEN conjunct2, THEN conjunct2, THEN conjunct2, THEN conjunct2, THEN conjunct2, THEN conjunct2, THEN conjunct2, THEN conjunct2, THEN conjunct2, THEN conjunct1, rule_format, OF E(13)]
  from o5 nc have o5': "\<exists>code t. module_code (foo_importer (raise_body test_error)) ''foo'' = Some code \<and>
      snd (code t) = Some test_error" by blast
  have p1: "set [''foo''] \<inter> {''sys'', ''marshal'', ''imp''} = {}" by simp
  have p2: "fst ` set [(''path'', PyList [])]
      \<subseteq> attr_name ` {Meta_path, Path, Path_hooks, Path_importer_cache}" by simp
  have p4: "\<not> sys_dont_write_bytecode example_sys" by (simp add: example_sys_def)
  have s1: "snd (uncache [''foo''] (raise_body test_error) example_sys) = Some test_error"
    using T2 [THEN conjunct2, THEN conjunct2, THEN conjunct2, THEN conjunct2, THEN conjunct2, THEN conjunct2, THEN conjunct2, THEN conjunct2, THEN conjunct2, THEN conjunct2, THEN conjunct2, THEN conjunct2, THEN conjunct2, THEN conjunct2, THEN conjunct2, THEN conjunct2, THEN conjunct2, THEN conjunct2, THEN conjunct2, THEN conjunct2, THEN conjunct2, THEN conjunct2, THEN conjunct1, rule_format, OF p1] by (simp add: raise_body_def)
  have s1': "snd (ImporterMock_with [''foo''] (raise_body test_error) example_sys) = Some test_error"
    using T2 [THEN conjunct2, THEN conjunct2, THEN conjunct2, THEN conjunct2, THEN conjunct2, THEN conjunct2, THEN conjunct2, THEN conjunct2, THEN conjunct2, THEN conjunct2, THEN conjunct2, THEN conjunct2, THEN conjunct2, THEN conjunct2, THEN conjunct2, THEN conjunct2, THEN conjunct2, THEN conjunct2, THEN conjunct2, THEN conjunct2, THEN conjunct2, THEN conjunct2, THEN conjunct2, THEN conjunct1, rule_format, OF p1] by (simp add: raise_body_def)
  have s2: "snd (import_state [(''path'', PyList [])] (raise_body test_error) example_sys)
      = Some test_error"
    using T2 [THEN conjunct2, THEN conjunct2, THEN conjunct2, THEN conjunct2, THEN conjunct2, THEN conjunct2, THEN conjunct2, THEN conjunct2, THEN conjunct2, THEN conjunct2, THEN conjunct2, THEN conjunct2, THEN conjunct2, THEN conjunct2, THEN conjunct2, THEN conjunct2, THEN conjunct2, THEN conjunct2, THEN conjunct2, THEN conjunct2, THEN conjunct2, THEN conjunct2, THEN conjunct2, THEN conjunct2, THEN conjunct1, rule_format, OF p2] by (simp add: raise_body_def)
  have s3: "snd (temporary_pycache_prefix (PyStr ''prefix'') (raise_body test_error) example_sys)
      = Some test_error"
    using T2 [THEN conjunct2, THEN conjunct2, THEN conjunct2, THEN conjunct2, THEN conjunct2, THEN conjunct2, THEN conjunct2, THEN conjunct2, THEN conjunct2, THEN conjunct2, THEN conjunct2, THEN conjunct2, THEN conjunct2, THEN conjunct2, THEN conjunct2, THEN conjunct2, THEN conjunct2, THEN conjunct2, THEN conjunct2, THEN conjunct2, THEN conjunct2, THEN conjunct2, THEN conjunct2, THEN conjunct2, THEN conjunct2, THEN conjunct1, rule_format] by (simp add: raise_body_def)
  have s4: "snd (writes_bytecode_files example_sys (raise_fxn test_error) [] example_sys)
      = Inl test_error"
    using T2 [THEN conjunct2, THEN conjunct2, THEN conjunct2, THEN conjunct2, THEN conjunct2, THEN conjunct2, THEN conjunct2, THEN conjunct2, THEN conjunct2, THEN conjunct2, THEN conjunct2, THEN conjunct2, THEN conjunct2, THEN conjunct2, THEN conjunct2, THEN conjunct2, THEN conjunct2, THEN conjunct2, THEN conjunct2, THEN conjunct2, THEN conjunct2, THEN conjunct2, THEN conjunct2, THEN conjunct2, THEN conjunct2, THEN conjunct2, THEN conjunct1, rule_format, OF p4] by (simp add: raise_fxn_def)
  let ?st = "example_sys\<lparr>sys_modules := (sys_modules example_sys)(''foo'' \<mapsto> new_module 0 ''foo'')\<rparr>"
  have p5: "modules (foo_importer (raise_body test_error)) ''foo'' = Some (new_module 0 ''foo'') \<and>
      module_code (foo_importer (raise_body test_error)) ''foo'' = Some (raise_body test_error) \<and>
      raise_body test_error ?st = (?st, Some test_error) \<and>
      (isinstance test_error Exception \<longrightarrow> sys_modules ?st ''foo'' \<noteq> None)"
    by (simp add: foo_importer_simps raise_body_def)
  note s5 = T2 [THEN conjunct2, THEN conjunct2, THEN conjunct2, THEN conjunct2, THEN conjunct2, THEN conjunct2, THEN conjunct2, THEN conjunct2, THEN conjunct2, THEN conjunct2, THEN conjunct2, THEN conjunct2, THEN conjunct2, THEN conjunct2, THEN conjunct2, THEN conjunct2, THEN conjunct2, THEN conjunct2, THEN conjunct2, THEN conjunct2, THEN conjunct2, THEN conjunct2, THEN conjunct2, THEN conjunct2, THEN conjunct2, THEN conjunct2, THEN conjunct2, THEN conjunct1, rule_format, OF p5]
  have n: "spec_name example_spec = ''foo''" by (simp add: example_spec_def)
  have p6: "mod_spec foo_with_spec = Some example_spec \<and>
      module_code (foo_importer (raise_body test_error)) (spec_name example_spec)
        = Some (raise_body test_error) \<and>
      raise_body test_error example_sys = (example_sys, Some test_error)"
    by (simp add: foo_with_spec_def n foo_importer_simps raise_body_def)
  have s6: "snd (exec_module (foo_importer (raise_body test_error)) foo_with_spec example_sys)
      = Some test_error"
    using T2 [THEN conjunct2, THEN conjunct2, THEN conjunct2, THEN conjunct2, THEN conjunct2, THEN conjunct2, THEN conjunct2, THEN conjunct2, THEN conjunct2, THEN conjunct2, THEN conjunct2, THEN conjunct2, THEN conjunct2, THEN conjunct2, THEN conjunct2, THEN conjunct2, THEN conjunct2, THEN conjunct2, THEN conjunct2, THEN conjunct2, THEN conjunct2, THEN conjunct2, THEN conjunct2, THEN conjunct2, THEN conjunct2, THEN conjunct2, THEN conjunct2, THEN conjunct2, THEN conjunct1, rule_format, OF p6] tx by simp
  have p6': "mod_spec foo_with_spec = Some example_spec \<and>
      module_code (foo_importer (raise_body key_error)) (spec_name example_spec)
        = Some (raise_body key_error) \<and>
      raise_body key_error example_sys = (example_sys, Some key_error)"
    by (simp add: foo_with_spec_def n foo_importer_simps raise_body_def)
  have s6': "snd (exec_module (foo_importer (raise_body key_error)) foo_with_spec example_sys) = None"
    using T4 [THEN conjunct2, THEN conjunct2, THEN conjunct2, THEN conjunct2, THEN conjunct2, THEN conjunct2, THEN conjunct2, THEN conjunct2, THEN conjunct2, THEN conjunct2, THEN conjunct2, THEN conjunct2, THEN conjunct2, THEN conjunct2, THEN conjunct2, THEN conjunct2, THEN conjunct2, THEN conjunct2, THEN conjunct2, THEN conjunct2, THEN conjunct2, THEN conjunct2, THEN conjunct2, THEN conjunct2, THEN conjunct2, THEN conjunct2, THEN conjunct2, THEN conjunct2, THEN conjunct1, rule_format, OF p6'] kx by simp
  have s7: "find_spec (raising_sffl test_error) (foo_importer (raise_body test_error)) ''foo''
      PyNone PyNone = Inl test_error"
    using T2 [THEN conjunct2, THEN conjunct2, THEN conjunct2, THEN conjunct2, THEN conjunct2, THEN conjunct2, THEN conjunct2, THEN conjunct2, THEN conjunct2, THEN conjunct2, THEN conjunct2, THEN conjunct2, THEN conjunct2, THEN conjunct2, THEN conjunct2, THEN conjunct2, THEN conjunct2, THEN conjunct2, THEN conjunct2, THEN conjunct2, THEN conjunct2, THEN conjunct2, THEN conjunct2, THEN conjunct2, THEN conjunct2, THEN conjunct2, THEN conjunct2, THEN conjunct2, THEN conjunct2, THEN conjunct1, rule_format, OF foo_importer_simps(1)]
    by (simp add: raising_sffl_def)
  have p8: "r_file (pkg_loader failing_package) = PyExc ?os \<and> isinstance ?os Exception"
    "r_path (pkg_loader failing_package) = PyExc ?os \<and> isinstance ?os Exception"
    "g_pc failing_gen = Unstarted \<and> g_path failing_gen = PyExc ?os \<and> isinstance ?os Exception"
    using ex by (simp_all add: failing_package_def create_package_def failing_gen_def)
  note s8 = T2 [THEN conjunct2, THEN conjunct2, THEN conjunct2, THEN conjunct2, THEN conjunct2, THEN conjunct2, THEN conjunct2, THEN conjunct2, THEN conjunct2, THEN conjunct2, THEN conjunct2, THEN conjunct2, THEN conjunct2, THEN conjunct2, THEN conjunct2, THEN conjunct2, THEN conjunct2, THEN conjunct2, THEN conjunct2, THEN conjunct2, THEN conjunct2, THEN conjunct2, THEN conjunct2, THEN conjunct2, THEN conjunct2, THEN conjunct2, THEN conjunct2, THEN conjunct2, THEN conjunct2, THEN conjunct2, THEN conjunct1, rule_format, OF p8(1)]
  note s9 = T2 [THEN conjunct2, THEN conjunct2, THEN conjunct2, THEN conjunct2, THEN conjunct2, THEN conjunct2, THEN conjunct2, THEN conjunct2, THEN conjunct2, THEN conjunct2, THEN conjunct2, THEN conjunct2, THEN conjunct2, THEN conjunct2, THEN conjunct2, THEN conjunct2, THEN conjunct2, THEN conjunct2, THEN conjunct2, THEN conjunct2, THEN conjunct2, THEN conjunct2, THEN conjunct2, THEN conjunct2, THEN conjunct2, THEN conjunct2, THEN conjunct2, THEN conjunct2, THEN conjunct2, THEN conjunct2, THEN conjunct2, THEN conjunct1, rule_format, OF p8(2)]
  note s10 = T2 [THEN conjunct2, THEN conjunct2, THEN conjunct2, THEN conjunct2, THEN conjunct2, THEN conjunct2, THEN conjunct2, THEN conjunct2, THEN conjunct2, THEN conjunct2, THEN conjunct2, THEN conjunct2, THEN conjunct2, THEN conjunct2, THEN conjunct2, THEN conjunct2, THEN conjunct2, THEN conjunct2, THEN conjunct2, THEN conjunct2, THEN conjunct2, THEN conjunct2, THEN conjunct2, THEN conjunct2, THEN conjunct2, THEN conjunct2, THEN conjunct2, THEN conjunct2, THEN conjunct2, THEN conjunct2, THEN conjunct2, THEN conjunct2, THEN conjunct1, rule_format, OF p8(3)]
  have s11: "snd (ensure_bytecode_path (mkdir_fails_host 13) example_dirname 17
      ''/pkg/__pycache__/mod.pyc'' []) = Some ?denied"
    using T2 [THEN conjunct2, THEN conjunct2, THEN conjunct2, THEN conjunct2, THEN conjunct2, THEN conjunct2, THEN conjunct2, THEN conjunct2, THEN conjunct2, THEN conjunct2, THEN conjunct2, THEN conjunct2, THEN conjunct2, THEN conjunct2, THEN conjunct2, THEN conjunct2, THEN conjunct2, THEN conjunct2, THEN conjunct2, THEN conjunct2, THEN conjunct2, THEN conjunct2, THEN conjunct2, THEN conjunct2, THEN conjunct2, THEN conjunct2, THEN conjunct2, THEN conjunct2, THEN conjunct2, THEN conjunct2, THEN conjunct2, THEN conjunct2, THEN conjunct2, THEN conjunct1, rule_format, OF mkdir_fails_host_simps(1)] by simp
  note o15 = T2 [THEN conjunct2, THEN conjunct2, THEN conjunct2, THEN conjunct2, THEN conjunct2, THEN conjunct2, THEN conjunct2, THEN conjunct2, THEN conjunct2, THEN conjunct2, THEN conjunct2, THEN conjunct2, THEN conjunct2, THEN conjunct2, THEN conjunct2, THEN conjunct1, rule_format, OF s11]
  have s12: "snd (ensure_bytecode_path (mkdir_fails_host 17) example_dirname 17
      ''/pkg/__pycache__/mod.pyc'' []) = None"
    using T4 [THEN conjunct2, THEN conjunct2, THEN conjunct2, THEN conjunct2, THEN conjunct2, THEN conjunct2, THEN conjunct2, THEN conjunct2, THEN conjunct2, THEN conjunct2, THEN conjunct2, THEN conjunct2, THEN conjunct2, THEN conjunct2, THEN conjunct2, THEN conjunct2, THEN conjunct2, THEN conjunct2, THEN conjunct2, THEN conjunct2, THEN conjunct2, THEN conjunct2, THEN conjunct2, THEN conjunct2, THEN conjunct2, THEN conjunct2, THEN conjunct2, THEN conjunct2, THEN conjunct2, THEN conjunct2, THEN conjunct2, THEN conjunct2, THEN conjunct2, THEN conjunct1, rule_format, OF mkdir_fails_host_simps(1)]
    by (simp add: isinstance_def issubclass_def)
  obtain w1 fr where en: "create_modules_enter (mkdir_fails_host 13) [''foo''] (example_sys, [])
      = (w1, fr, None)"
    using example_enter_foo(1)
    by (cases "create_modules_enter (mkdir_fails_host 13) [''foo''] (example_sys, [])") simp
  have td: "temp_dir fr = Some ''/tmp/t''" using example_enter_foo(2) by (simp add: en)
  have fin: "snd (create_modules_finally (mkdir_fails_host 13) fr w1) = None"
    using td by (rule create_modules_finally_ok) (simp add: mkdir_fails_host_simps)
  have p13: "create_modules_enter (mkdir_fails_host 13) [''foo''] (example_sys, []) = (w1, fr, None) \<and>
      raise_cm_body test_error (yielded fr) w1 = (w1, Some test_error) \<and>
      snd (create_modules_finally (mkdir_fails_host 13) fr w1) = None"
    using en fin by (simp add: raise_cm_body_def)
  note s13 = T2 [THEN conjunct2, THEN conjunct2, THEN conjunct2, THEN conjunct2, THEN conjunct2, THEN conjunct2, THEN conjunct2, THEN conjunct2, THEN conjunct2, THEN conjunct2, THEN conjunct2, THEN conjunct2, THEN conjunct2, THEN conjunct2, THEN conjunct2, THEN conjunct2, THEN conjunct2, THEN conjunct2, THEN conjunct2, THEN conjunct2, THEN conjunct2, THEN conjunct2, THEN conjunct2, THEN conjunct2, THEN conjunct2, THEN conjunct2, THEN conjunct2, THEN conjunct2, THEN conjunct2, THEN conjunct2, THEN conjunct2, THEN conjunct2, THEN conjunct2, THEN conjunct2, THEN conjunct1, rule_format, OF p13]
  obtain v1 gr where en': "create_modules_enter (mkdir_fails_host 13) [''pkg.mod''] (example_sys, [])
      = (v1, gr, Some ?denied)"
    using example_enter_pkg(1)
    by (cases "create_modules_enter (mkdir_fails_host 13) [''pkg.mod''] (example_sys, [])") simp
  have td': "temp_dir gr = Some ''/tmp/t''" using example_enter_pkg(2) by (simp add: en')
  have fin': "snd (create_modules_finally (mkdir_fails_host 13) gr v1) = None"
    using td' by (rule create_modules_finally_ok) (simp add: mkdir_fails_host_simps)
  have p14: "create_modules_enter (mkdir_fails_host 13) [''pkg.mod''] (example_sys, [])
        = (v1, gr, Some ?denied) \<and>
      snd (create_modules_finally (mkdir_fails_host 13) gr v1) = None"
    using en' fin' by simp
  note s14 = T3 [THEN conjunct2, THEN conjunct2, THEN conjunct2, THEN conjunct2, THEN conjunct2, THEN conjunct2, THEN conjunct2, THEN conjunct2, THEN conjunct2, THEN conjunct2, THEN conjunct2, THEN conjunct2, THEN conjunct2, THEN conjunct2, THEN conjunct2, THEN conjunct2, THEN conjunct2, THEN conjunct2, THEN conjunct2, THEN conjunct2, THEN conjunct2, THEN conjunct2, THEN conjunct2, THEN conjunct2, THEN conjunct2, THEN conjunct2, THEN conjunct2, THEN conjunct2, THEN conjunct2, THEN conjunct2, THEN conjunct2, THEN conjunct2, THEN conjunct2, THEN conjunct2, THEN conjunct2, rule_format, OF p14]
  have part1:
    "snd (uncache [''sys''] (raise_body test_error) example_sys)
       = Some (Exc ValueError (Msg ''cannot uncache sys'')) \<and>
     snd (ImporterMock_with [''sys''] (raise_body test_error) example_sys)
       = Some (Exc ValueError (Msg ''cannot uncache sys'')) \<and>
     snd (import_state [(''modules'', PyDict [])] (raise_body test_error) example_sys)
       = Some (Exc ValueError (MsgKeys ''unrecognized arguments: {0}'' [''modules''])) \<and>
     create_module (foo_importer (raise_body test_error)) (example_spec\<lparr>spec_name := ''bar''\<rparr>)
       = Inl (Exc ImportError NoArgs) \<and>
     mock_path_hook [''/here''] (0::nat) ''/other'' = Inl (Exc ImportError NoArgs) \<and>
     getitem (foo_importer (raise_body key_error)) ''bar'' = Inl (Exc KeyError (Msg ''bar'')) \<and>
     snd (create_modules example_host [''sys''] pass_cm_body (example_sys, []))
       = Some (Exc ValueError (Msg ''cannot uncache sys''))"
    using E(1) example_with_error E(2) E(7) E(9) gi E(14) by (intro conjI)
  have part2:
    "host_defined ValueError \<and> host_defined ImportError \<and> host_defined KeyError \<and>
     host_defined AttributeError \<and> host_defined UnboundLocalError \<and>
     \<not> host_defined (exc_cls test_error) \<and>
     (\<exists>t. snd (raise_body test_error t) = Some test_error) \<and>
     (\<exists>t. snd (raise_fxn test_error [] t) = Inl test_error) \<and>
     (\<exists>code t. module_code (foo_importer (raise_body test_error)) ''foo'' = Some code \<and>
        snd (code t) = Some test_error) \<and>
     (\<exists>name location loader search.
        raising_sffl test_error name location loader search = (Inl test_error :: exc + module_spec option)) \<and>
     r_file (pkg_loader failing_package) = PyExc (Exc OSError NoArgs) \<and>
     r_path (pkg_loader failing_package) = PyExc (Exc OSError NoArgs) \<and>
     g_path failing_gen = PyExc (Exc OSError NoArgs) \<and>
     (\<exists>q fs0 fs1. os_mkdir (mkdir_fails_host 13) q fs0
        = (fs1 :: string list, Some (Exc OSError (OSArgs 13 ''mkdir failed''))))"
    using h1 h2 h3 h4 h5 u o3 o4 o5' o8 o10 o11 o13 o15 by (intro conjI)
  have part3:
    "snd (uncache [''foo''] (raise_body test_error) example_sys) = Some test_error \<and>
     snd (ImporterMock_with [''foo''] (raise_body test_error) example_sys) = Some test_error \<and>
     snd (import_state [(''path'', PyList [])] (raise_body test_error) example_sys) = Some test_error \<and>
     snd (temporary_pycache_prefix (PyStr ''prefix'') (raise_body test_error) example_sys)
       = Some test_error \<and>
     snd (writes_bytecode_files example_sys (raise_fxn test_error) [] example_sys) = Inl test_error \<and>
     snd (load_module (foo_importer (raise_body test_error)) ''foo'' example_sys) = Inl test_error \<and>
     snd (exec_module (foo_importer (raise_body test_error)) foo_with_spec example_sys)
       = Some test_error \<and>
     snd (exec_module (foo_importer (raise_body key_error)) foo_with_spec example_sys) = None \<and>
     find_spec (raising_sffl test_error) (foo_importer (raise_body test_error)) ''foo'' PyNone PyNone
       = Inl test_error"
    using s1 s1' s2 s3 s4 s5 s6 s6' s7 by (intro conjI)
  have part4:
    "snd (open_resource (pkg_loader failing_package) ''a'') = Inl (Exc OSError NoArgs) \<and>
     snd (resource_path (pkg_loader failing_package) ''a'') = Inl (Exc OSError NoArgs) \<and>
     snd (is_resource (pkg_loader failing_package) ''a'') = Inl (Exc OSError NoArgs) \<and>
     snd (gen_next failing_gen) = Raise (Exc OSError NoArgs) \<and>
     snd (ensure_bytecode_path (mkdir_fails_host 13) example_dirname 17 ''/pkg/__pycache__/mod.pyc'' [])
       = Some (Exc OSError (OSArgs 13 ''mkdir failed'')) \<and>
     snd (ensure_bytecode_path (mkdir_fails_host 17) example_dirname 17 ''/pkg/__pycache__/mod.pyc'' [])
       = None \<and>
     snd (create_modules (mkdir_fails_host 13) [''foo''] (raise_cm_body test_error) (example_sys, []))
       = Some test_error \<and>
     snd (create_modules (mkdir_fails_host 13) [''pkg.mod''] (raise_cm_body test_error) (example_sys, []))
       = Some (Exc OSError (OSArgs 13 ''mkdir failed''))"
    using s8 s9 s10 s11 s12 s13 s14 by (intro conjI) simp_all
  from part1 part2 part3 part4 show ?thesis by (simp only: simp_thms)
qed

end
